theory Spec2Isabelle
  imports Main "HOL-Library.Multiset"
begin

section \<open>Values of the Python runtime used by sensor.py\<close>

subsection \<open>Floats and their \<open>.2f\<close> rendering\<close>

text \<open>
  A price is a Python float. The model keeps the sign bit, the mantissa and the binary
  exponent, so the value is \<open>(-1)^s * m * 2^e\<close>. Every IEEE double that is a number has
  this form (and negative zero is \<open>PyFloat True 0 e\<close>). The price series holds numbers,
  so NaN and the infinities are not part of the type.
\<close>

datatype pyfloat = PyFloat (negative: bool) (mantissa: nat) (exponent: int)

text \<open>The value of a float as an integer multiple of \<open>2^e\<close>, for an \<open>e\<close> not above its exponent.\<close>

definition scaled :: "int \<Rightarrow> pyfloat \<Rightarrow> int" where
  "scaled e v = (if negative v then - 1 else 1) * int (mantissa v) * 2 ^ nat (exponent v - e)"

text \<open>Python's \<open>a < b\<close> and \<open>a == b\<close> on floats compare the exact values.\<close>

definition float_lt :: "pyfloat \<Rightarrow> pyfloat \<Rightarrow> bool" where
  "float_lt a b = (let e = min (exponent a) (exponent b) in scaled e a < scaled e b)"

definition float_eq :: "pyfloat \<Rightarrow> pyfloat \<Rightarrow> bool" where
  "float_eq a b = (let e = min (exponent a) (exponent b) in scaled e a = scaled e b)"

text \<open>Decimal digits of a natural number, as \<open>str(n)\<close> prints them.\<close>

definition digit_char :: "nat \<Rightarrow> char" where
  "digit_char d = ''0123456789'' ! d"

fun dec :: "nat \<Rightarrow> string" where
  "dec n = (if n < 10 then [digit_char n] else dec (n div 10) @ [digit_char (n mod 10)])"

declare dec.simps [simp del]

text \<open>The format \<open>02d\<close> on a number that is not negative: at least two digits, padded with a zero.\<close>

definition pad2 :: "nat \<Rightarrow> string" where
  "pad2 n = (if n < 10 then CHR ''0'' # dec n else dec n)"

text \<open>
  The format \<open>.2f\<close> rounds the exact binary value to hundredths, ties to the even
  neighbour, and prints the sign of the float itself (so \<open>-0.001\<close> prints as \<open>-0.00\<close>).
\<close>

definition round_half_even :: "nat \<Rightarrow> nat \<Rightarrow> nat" where
  "round_half_even n d =
     (let q = n div d; r = n mod d
      in if 2 * r < d then q
         else if d < 2 * r then q + 1
         else if even q then q else q + 1)"

definition hundredths :: "pyfloat \<Rightarrow> nat" where
  "hundredths v =
     (if 0 \<le> exponent v then mantissa v * 100 * 2 ^ nat (exponent v)
      else round_half_even (mantissa v * 100) (2 ^ nat (- exponent v)))"

definition format_2f :: "pyfloat \<Rightarrow> string" where
  "format_2f v =
     (let h = hundredths v
      in (if negative v then ''-'' else []) @ dec (h div 100) @ ''.'' @ pad2 (h mod 100))"

subsection \<open>Datetimes and time zones\<close>

text \<open>
  A naive datetime is the number of microseconds of its wall-clock fields since
  0001-01-01T00:00:00 on the proleptic Gregorian calendar: comparing two naive datetimes
  compares these numbers, and \<open>.hour\<close> is the hour within the day. The keys of the price
  dictionary are represented by their wall-clock fields, which is all that
  \<open>k.replace(tzinfo=UTC)\<close> keeps of them. The year range of Python's datetime is not
  bounded here.
\<close>

type_synonym datetime = int

definition hour_us :: int where
  "hour_us = 3600000000"

definition day_us :: int where
  "day_us = 86400000000"

definition timedelta_hours :: "int \<Rightarrow> int" where
  "timedelta_hours h = h * hour_us"

definition hour :: "datetime \<Rightarrow> nat" where
  "hour t = nat ((t div hour_us) mod 24)"

text \<open>The calendar day of a naive datetime, as a day number.\<close>

definition date :: "datetime \<Rightarrow> int" where
  "date t = t div day_us"

text \<open>
  A time zone gives, for an instant on the UTC time line, its offset east of UTC in
  microseconds. An aware datetime is an instant of the UTC time line together with the
  zone it is shown in.
\<close>

type_synonym tzinfo = "int \<Rightarrow> int"

record aware =
  instant :: int
  zone :: tzinfo

definition UTC :: tzinfo where
  "UTC = (\<lambda>_. 0)"

text \<open>\<open>k.replace(tzinfo=dt_util.UTC)\<close>: the wall-clock fields of \<open>k\<close>, read as UTC.\<close>

definition replace_tzinfo_UTC :: "datetime \<Rightarrow> aware" where
  "replace_tzinfo_UTC k = \<lparr>instant = k, zone = UTC\<rparr>"

text \<open>
  Modelled from the spec: \<open>homeassistant.util.dt.as_local\<close> is not under src/. It
  converts an aware datetime to the local time zone, the same instant shown in the zone
  \<open>DEFAULT_TIME_ZONE\<close>.
\<close>

definition as_local :: "tzinfo \<Rightarrow> aware \<Rightarrow> aware" where
  "as_local tz d = d\<lparr>zone := tz\<rparr>"

text \<open>\<open>d.replace(tzinfo=None)\<close>: the wall-clock fields of \<open>d\<close> in its zone, the offset dropped.\<close>

definition replace_tzinfo_None :: "aware \<Rightarrow> datetime" where
  "replace_tzinfo_None d = instant d + zone d (instant d)"

subsection \<open>Tuple comparison, \<open>sorted\<close> and \<open>str.join\<close>\<close>

text \<open>
  Python compares two tuples at the first position where they are not equal; equal
  tuples are not less than each other.
\<close>

fun tuple_lt :: "datetime \<times> pyfloat \<Rightarrow> datetime \<times> pyfloat \<Rightarrow> bool" where
  "tuple_lt (k1, v1) (k2, v2) =
     (if k1 \<noteq> k2 then k1 < k2
      else if \<not> float_eq v1 v2 then float_lt v1 v2
      else False)"

text \<open>
  \<open>sorted\<close> is a stable sort that only asks \<open>a < b\<close>: an item goes before the first
  item of the sorted rest that is not less than it.
\<close>

fun insort_lt :: "datetime \<times> pyfloat \<Rightarrow> (datetime \<times> pyfloat) list \<Rightarrow> (datetime \<times> pyfloat) list" where
  "insort_lt x [] = [x]"
| "insort_lt x (y # ys) = (if tuple_lt y x then y # insort_lt x ys else x # y # ys)"

definition sorted_py :: "(datetime \<times> pyfloat) list \<Rightarrow> (datetime \<times> pyfloat) list" where
  "sorted_py xs = foldr insort_lt xs []"

fun str_join :: "string \<Rightarrow> string list \<Rightarrow> string" where
  "str_join sep [] = []"
| "str_join sep [x] = x"
| "str_join sep (x # y # ys) = x @ sep @ str_join sep (y # ys)"

text \<open>
  The tokens of a rendered string: \<open>str_split\<close> is Python's \<open>s.split(c)\<close>, and the empty
  string has no token.
\<close>

fun str_split :: "char \<Rightarrow> string \<Rightarrow> string list" where
  "str_split c [] = [[]]"
| "str_split c (x # xs) =
     (if x = c then [] # str_split c xs
      else (case str_split c xs of [] \<Rightarrow> [[x]] | t # ts \<Rightarrow> (x # t) # ts))"

definition tokens_of :: "string \<Rightarrow> string list" where
  "tokens_of s = (if s = [] then [] else str_split CHR '','' s)"

section \<open>The snapshot and its collaborators\<close>

datatype exn = TypeError | ValueError | ZeroDivisionError

text \<open>
  The classes \<open>Electricity\<close> and \<open>Gas\<close> come from the energyzero client library. An object
  is given by what its attributes and methods return while a view is evaluated;
  \<open>prices\<close> is the dictionary in iteration order, \<open>utcnow\<close> the instant the object's
  clock reports. An accessor of the library may raise.
\<close>

record Electricity =
  prices :: "(datetime \<times> pyfloat) list"
  utcnow :: datetime
  price_at_time :: "datetime \<Rightarrow> exn + pyfloat option"
  current_price :: "exn + pyfloat option"
  average_price :: "exn + pyfloat"
  extreme_prices :: "exn + pyfloat \<times> pyfloat"
  highest_price_time :: "exn + datetime"
  lowest_price_time :: "exn + datetime"
  pct_of_max_price :: "exn + pyfloat"
  hours_priced_equal_or_lower :: "exn + int"

record Gas =
  prices :: "(datetime \<times> pyfloat) list"
  utcnow :: datetime
  price_at_time :: "datetime \<Rightarrow> exn + pyfloat option"
  current_price :: "exn + pyfloat option"

record EnergyZeroData =
  energy_today :: Electricity
  gas_today :: "Gas option"

text \<open>The part of the platform the module reads: the configured zone name and \<open>dt_util\<close>.\<close>

record Config =
  time_zone :: string

record HomeAssistant =
  config :: Config

record dt_util =
  DEFAULT_TIME_ZONE :: tzinfo
  get_time_zone :: "string \<Rightarrow> tzinfo option"

section \<open>sensor.py\<close>

subsection \<open>process_timestamp_prices\<close>

text \<open>The sorted list of (naive local datetime, price) pairs, the source's \<open>local_prices\<close>.\<close>

definition local_prices :: "dt_util \<Rightarrow> (datetime \<times> pyfloat) list \<Rightarrow> (datetime \<times> pyfloat) list" where
  "local_prices dt ps =
     sorted_py (map (\<lambda>(k, v).
        (replace_tzinfo_None (as_local (DEFAULT_TIME_ZONE dt) (replace_tzinfo_UTC k)), v)) ps)"

text \<open>One token, \<open>f"{k.hour:02d}:{v:.2f}"\<close>.\<close>

fun format_entry :: "datetime \<times> pyfloat \<Rightarrow> string" where
  "format_entry (k, v) = pad2 (hour k) @ '':'' @ format_2f v"

definition process_timestamp_prices :: "dt_util \<Rightarrow> HomeAssistant \<Rightarrow> EnergyZeroData \<Rightarrow> string" where
  "process_timestamp_prices dt hass data =
     (let prices = Electricity.prices (energy_today data);
          local_tz = get_time_zone dt (time_zone (config hass));
          local_prices = local_prices dt prices
      in str_join '','' (map format_entry local_prices))"

subsection \<open>get_gas_price\<close>

definition get_gas_price :: "EnergyZeroData \<Rightarrow> int \<Rightarrow> exn + pyfloat option" where
  "get_gas_price data hours =
     (case gas_today data of
        None \<Rightarrow> Inr None
      | Some gas \<Rightarrow> Gas.price_at_time gas (Gas.utcnow gas + timedelta_hours hours))"

subsection \<open>The table SENSORS and native_value\<close>

text \<open>What a sensor reports: \<open>float | datetime | str | None\<close>, and an int for the hour count.\<close>

datatype state = NoneVal | FloatVal pyfloat | IntVal int | DatetimeVal datetime | StrVal string

definition optional_float :: "pyfloat option \<Rightarrow> state" where
  "optional_float r = (case r of None \<Rightarrow> NoneVal | Some v \<Rightarrow> FloatVal v)"

text \<open>A raise of the accessor passes through; its value becomes the sensor's state.\<close>

definition returning :: "('a \<Rightarrow> state) \<Rightarrow> exn + 'a \<Rightarrow> exn + state" where
  "returning f r = (case r of Inl e \<Rightarrow> Inl e | Inr a \<Rightarrow> Inr (f a))"

text \<open>
  The lambdas of the table take the snapshot alone, except the one of
  \<open>timestamp_prices\<close>, which takes \<open>hass\<close> and the snapshot. The first lambda tests
  \<open>data.gas_today\<close> for truth; an object of the class \<open>Gas\<close> is true, so the test fails
  for None only.
\<close>

datatype value_fn =
  Fn1 "EnergyZeroData \<Rightarrow> exn + state"
| Fn2 "HomeAssistant \<Rightarrow> EnergyZeroData \<Rightarrow> exn + state"

record EnergyZeroSensorEntityDescription =
  key :: string
  name :: string
  service_type :: string
  value_fn :: value_fn

definition SENSORS :: "dt_util \<Rightarrow> EnergyZeroSensorEntityDescription list" where
  "SENSORS dt =
   [ \<lparr>key = ''current_hour_price'', name = ''Current Hour Price'', service_type = ''today_gas'',
      value_fn = Fn1 (\<lambda>data. case gas_today data of
                        Some gas \<Rightarrow> returning optional_float (Gas.current_price gas)
                      | None \<Rightarrow> Inr NoneVal)\<rparr>,
     \<lparr>key = ''next_hour_price'', name = ''Next Hour Price'', service_type = ''today_gas'',
      value_fn = Fn1 (\<lambda>data. returning optional_float (get_gas_price data 1))\<rparr>,
     \<lparr>key = ''current_hour_price'', name = ''Current Hour Price'', service_type = ''today_energy'',
      value_fn = Fn1 (\<lambda>data. returning optional_float (Electricity.current_price (energy_today data)))\<rparr>,
     \<lparr>key = ''next_hour_price'', name = ''Next Hour Price'', service_type = ''today_energy'',
      value_fn = Fn1 (\<lambda>data. returning optional_float
                        (Electricity.price_at_time (energy_today data)
                           (Electricity.utcnow (energy_today data) + timedelta_hours 1)))\<rparr>,
     \<lparr>key = ''average_price'', name = ''Average Price Today'', service_type = ''today_energy'',
      value_fn = Fn1 (\<lambda>data. returning FloatVal (average_price (energy_today data)))\<rparr>,
     \<lparr>key = ''max_price'', name = ''Highest Price Today'', service_type = ''today_energy'',
      value_fn = Fn1 (\<lambda>data. returning (\<lambda>p. FloatVal (snd p)) (extreme_prices (energy_today data)))\<rparr>,
     \<lparr>key = ''min_price'', name = ''Lowest Price Today'', service_type = ''today_energy'',
      value_fn = Fn1 (\<lambda>data. returning (\<lambda>p. FloatVal (fst p)) (extreme_prices (energy_today data)))\<rparr>,
     \<lparr>key = ''highest_price_time'', name = ''Time of Highest Price Today'', service_type = ''today_energy'',
      value_fn = Fn1 (\<lambda>data. returning DatetimeVal (highest_price_time (energy_today data)))\<rparr>,
     \<lparr>key = ''lowest_price_time'', name = ''Time of Lowest Price Today'', service_type = ''today_energy'',
      value_fn = Fn1 (\<lambda>data. returning DatetimeVal (lowest_price_time (energy_today data)))\<rparr>,
     \<lparr>key = ''percentage_of_max'', name = ''Current Percentage of Highest Price'', service_type = ''today_energy'',
      value_fn = Fn1 (\<lambda>data. returning FloatVal (pct_of_max_price (energy_today data)))\<rparr>,
     \<lparr>key = ''hours_priced_equal_or_lower'', name = ''Hours Priced Equal or Lower'', service_type = ''today_energy'',
      value_fn = Fn1 (\<lambda>data. returning IntVal (hours_priced_equal_or_lower (energy_today data)))\<rparr>,
     \<lparr>key = ''timestamp_prices'', name = ''Hourly Prices Today'', service_type = ''today_energy'',
      value_fn = Fn2 (\<lambda>hass data. Inr (StrVal (process_timestamp_prices dt hass data)))\<rparr> ]"

text \<open>
  \<open>native_value\<close> calls the description's function with \<open>hass\<close> and the snapshot for the
  key \<open>timestamp_prices\<close> and with the snapshot alone otherwise; a call with the wrong
  number of arguments is Python's TypeError.
\<close>

definition native_value ::
  "HomeAssistant \<Rightarrow> EnergyZeroData \<Rightarrow> EnergyZeroSensorEntityDescription \<Rightarrow> exn + state" where
  "native_value hass data description =
     (if key description = ''timestamp_prices''
      then (case value_fn description of Fn2 f \<Rightarrow> f hass data | Fn1 f \<Rightarrow> Inl TypeError)
      else (case value_fn description of Fn1 f \<Rightarrow> f data | Fn2 f \<Rightarrow> Inl TypeError))"

subsection \<open>Calls as computations on the store of objects\<close>

text \<open>
  The objects a call can reach live in a store. An address is a position in the list of
  objects; a new object is put at the end. The store also holds the clock that
  \<open>utcnow()\<close> reads. The snapshot object is given by the addresses its two attributes
  hold.
\<close>

datatype object =
  ElectricityObj Electricity
| GasObj Gas
| ListObj "(datetime \<times> pyfloat) list"

record store =
  objects :: "object list"
  clock :: datetime

record EnergyZeroData_ref =
  energy_today_ref :: nat
  gas_today_ref :: "nat option"

text \<open>
  A computation takes the store and returns a value or a raised exception, and the store
  as it leaves it. \<open>and_then\<close> runs a second computation on the store the first one
  left; a raise ends the sequence.
\<close>

type_synonym 'a comp = "store \<Rightarrow> (exn + 'a) \<times> store"

definition ret :: "'a \<Rightarrow> 'a comp" where
  "ret x = (\<lambda>s. (Inr x, s))"

definition raise :: "exn \<Rightarrow> 'a comp" where
  "raise e = (\<lambda>s. (Inl e, s))"

definition and_then :: "'a comp \<Rightarrow> ('a \<Rightarrow> 'b comp) \<Rightarrow> 'b comp" where
  "and_then m f = (\<lambda>s. case m s of (Inl e, s') \<Rightarrow> (Inl e, s') | (Inr x, s') \<Rightarrow> f x s')"

text \<open>
  Reading an attribute through a reference; an address that holds no object of the
  expected class is a TypeError.
\<close>

definition load :: "nat \<Rightarrow> object comp" where
  "load a = (\<lambda>s. if a < length (objects s) then (Inr (objects s ! a), s) else (Inl TypeError, s))"

definition get_electricity :: "nat \<Rightarrow> Electricity comp" where
  "get_electricity a =
     and_then (load a) (\<lambda>ob. case ob of ElectricityObj e \<Rightarrow> ret e | _ \<Rightarrow> raise TypeError)"

definition get_gas :: "nat \<Rightarrow> Gas comp" where
  "get_gas a = and_then (load a) (\<lambda>ob. case ob of GasObj g \<Rightarrow> ret g | _ \<Rightarrow> raise TypeError)"

definition get_list :: "nat \<Rightarrow> (datetime \<times> pyfloat) list comp" where
  "get_list a = and_then (load a) (\<lambda>ob. case ob of ListObj xs \<Rightarrow> ret xs | _ \<Rightarrow> raise TypeError)"

text \<open>
  \<open>utcnow()\<close> reads the clock. \<open>call\<close> is a call of an accessor of the energyzero library
  on an object that was read from the store: it yields what the accessor returns or
  raises. The library is not part of this module; its accessors are taken to read only.
\<close>

definition utcnow_call :: "datetime comp" where
  "utcnow_call = (\<lambda>s. (Inr (clock s), s))"

definition call :: "exn + 'a \<Rightarrow> 'a comp" where
  "call r = (\<lambda>s. (r, s))"

text \<open>
  \<open>sorted(iterable)\<close> builds a new list from the iterable and sorts that list in place;
  \<open>list_sort\<close> is the in-place \<open>list.sort()\<close>, which replaces the contents of the list
  object at the address.
\<close>

definition new_list :: "(datetime \<times> pyfloat) list \<Rightarrow> nat comp" where
  "new_list xs = (\<lambda>s. (Inr (length (objects s)), s\<lparr>objects := objects s @ [ListObj xs]\<rparr>))"

definition list_sort :: "nat \<Rightarrow> unit comp" where
  "list_sort a =
     and_then (get_list a)
       (\<lambda>xs s. (Inr (), s\<lparr>objects := (objects s)[a := ListObj (sorted_py xs)]\<rparr>))"

definition sorted_builtin :: "(datetime \<times> pyfloat) list \<Rightarrow> nat comp" where
  "sorted_builtin xs = and_then (new_list xs) (\<lambda>a. and_then (list_sort a) (\<lambda>_. ret a))"

text \<open>
  The three kinds of call of sensor.py as computations, statement by statement:
  \<open>data.energy_today.prices\<close> is read, \<open>sorted\<close> makes the list \<open>local_prices\<close>, and the
  join iterates over that list.
\<close>

definition process_timestamp_prices_st ::
  "dt_util \<Rightarrow> HomeAssistant \<Rightarrow> EnergyZeroData_ref \<Rightarrow> string comp" where
  "process_timestamp_prices_st dt hass data =
     and_then (get_electricity (energy_today_ref data)) (\<lambda>energy_today.
       let prices = Electricity.prices energy_today;
           local_tz = get_time_zone dt (time_zone (config hass))
       in and_then (sorted_builtin (map (\<lambda>(k, v).
              (replace_tzinfo_None (as_local (DEFAULT_TIME_ZONE dt) (replace_tzinfo_UTC k)), v)) prices))
            (\<lambda>local_prices.
          and_then (get_list local_prices) (\<lambda>items.
            ret (str_join '','' (map format_entry items)))))"

definition get_gas_price_st :: "EnergyZeroData_ref \<Rightarrow> int \<Rightarrow> pyfloat option comp" where
  "get_gas_price_st data hours =
     (case gas_today_ref data of
        None \<Rightarrow> ret None
      | Some g \<Rightarrow>
          and_then (get_gas g) (\<lambda>gas.
          and_then utcnow_call (\<lambda>now.
            call (Gas.price_at_time gas (now + timedelta_hours hours)))))"

text \<open>
  The table of the value functions as computations, in the order of \<open>SENSORS\<close>, each
  with its key. \<open>accessor f g\<close> is a lambda of the form \<open>lambda data: data.energy_today.f\<close>.
\<close>

datatype effect_fn =
  Eff1 "EnergyZeroData_ref \<Rightarrow> state comp"
| Eff2 "HomeAssistant \<Rightarrow> EnergyZeroData_ref \<Rightarrow> state comp"

definition accessor :: "(Electricity \<Rightarrow> exn + 'a) \<Rightarrow> ('a \<Rightarrow> state) \<Rightarrow> EnergyZeroData_ref \<Rightarrow> state comp" where
  "accessor f g data =
     and_then (get_electricity (energy_today_ref data)) (\<lambda>energy_today.
     and_then (call (f energy_today)) (\<lambda>r. ret (g r)))"

definition SENSOR_EFFECTS :: "dt_util \<Rightarrow> (string \<times> effect_fn) list" where
  "SENSOR_EFFECTS dt =
   [ (''current_hour_price'',
      Eff1 (\<lambda>data. case gas_today_ref data of
                Some g \<Rightarrow> and_then (get_gas g) (\<lambda>gas.
                          and_then (call (Gas.current_price gas)) (\<lambda>r. ret (optional_float r)))
              | None \<Rightarrow> ret NoneVal)),
     (''next_hour_price'',
      Eff1 (\<lambda>data. and_then (get_gas_price_st data 1) (\<lambda>r. ret (optional_float r)))),
     (''current_hour_price'', Eff1 (accessor Electricity.current_price optional_float)),
     (''next_hour_price'',
      Eff1 (\<lambda>data. and_then (get_electricity (energy_today_ref data)) (\<lambda>energy_today.
                    and_then utcnow_call (\<lambda>now.
                    and_then (call (Electricity.price_at_time energy_today (now + timedelta_hours 1)))
                      (\<lambda>r. ret (optional_float r)))))),
     (''average_price'', Eff1 (accessor average_price FloatVal)),
     (''max_price'', Eff1 (accessor extreme_prices (\<lambda>p. FloatVal (snd p)))),
     (''min_price'', Eff1 (accessor extreme_prices (\<lambda>p. FloatVal (fst p)))),
     (''highest_price_time'', Eff1 (accessor highest_price_time DatetimeVal)),
     (''lowest_price_time'', Eff1 (accessor lowest_price_time DatetimeVal)),
     (''percentage_of_max'', Eff1 (accessor pct_of_max_price FloatVal)),
     (''hours_priced_equal_or_lower'', Eff1 (accessor hours_priced_equal_or_lower IntVal)),
     (''timestamp_prices'',
      Eff2 (\<lambda>hass data. and_then (process_timestamp_prices_st dt hass data) (\<lambda>r. ret (StrVal r)))) ]"

fun native_value_st :: "HomeAssistant \<Rightarrow> EnergyZeroData_ref \<Rightarrow> string \<times> effect_fn \<Rightarrow> state comp" where
  "native_value_st hass data (k, f) =
     (if k = ''timestamp_prices''
      then (case f of Eff2 g \<Rightarrow> g hass data | Eff1 g \<Rightarrow> raise TypeError)
      else (case f of Eff1 g \<Rightarrow> g data | Eff2 g \<Rightarrow> raise TypeError))"

text \<open>
  \<open>unchanged s s'\<close>: every object of \<open>s\<close> is in \<open>s'\<close> at its address with the same contents,
  and the clock is the same; \<open>s'\<close> may hold new objects. \<open>snapshot\<close> is the snapshot a call
  sees through the references of \<open>data\<close>: the two objects, whose \<open>utcnow\<close> is the clock.
\<close>

definition unchanged :: "store \<Rightarrow> store \<Rightarrow> bool" where
  "unchanged s s' =
     (clock s' = clock s \<and> take (length (objects s)) (objects s') = objects s)"

definition snapshot :: "EnergyZeroData_ref \<Rightarrow> store \<Rightarrow> EnergyZeroData option" where
  "snapshot data s =
     (case fst (get_electricity (energy_today_ref data) s) of
        Inl _ \<Rightarrow> None
      | Inr e \<Rightarrow>
          (case gas_today_ref data of
             None \<Rightarrow> Some \<lparr>energy_today = e\<lparr>Electricity.utcnow := clock s\<rparr>, gas_today = None\<rparr>
           | Some g \<Rightarrow>
               (case fst (get_gas g s) of
                  Inl _ \<Rightarrow> None
                | Inr gas \<Rightarrow> Some \<lparr>energy_today = e\<lparr>Electricity.utcnow := clock s\<rparr>,
                                    gas_today = Some (gas\<lparr>Gas.utcnow := clock s\<rparr>)\<rparr>)))"

text \<open>A computation keeps the frame when it leaves every store unchanged in this sense.\<close>

definition frame :: "'a comp \<Rightarrow> bool" where
  "frame m = (\<forall>s. unchanged s (snd (m s)))"

section \<open>The shape of a rendered token\<close>

text \<open>
  A token is two digits, a colon and a price; a price is an optional minus sign, at least
  one digit, a point and exactly two digits.
\<close>

definition is_digit :: "char \<Rightarrow> bool" where
  "is_digit c = (c \<in> set ''0123456789'')"

fun strip_sign :: "string \<Rightarrow> string" where
  "strip_sign [] = []"
| "strip_sign (c # r) = (if c = CHR ''-'' then r else c # r)"

definition is_price :: "string \<Rightarrow> bool" where
  "is_price s =
     (let u = strip_sign s;
          ds = takeWhile is_digit u;
          r = dropWhile is_digit u
      in ds \<noteq> [] \<and>
         (case r of [p, d1, d2] \<Rightarrow> p = CHR ''.'' \<and> is_digit d1 \<and> is_digit d2 | _ \<Rightarrow> False))"

definition token_form :: "string \<Rightarrow> bool" where
  "token_form t =
     (case t of h1 # h2 # c # rest \<Rightarrow> is_digit h1 \<and> is_digit h2 \<and> c = CHR '':'' \<and> is_price rest
      | _ \<Rightarrow> False)"

section \<open>Sample inputs\<close>

text \<open>
  \<open>price_024\<close> is the double nearest to 0.24. \<open>fixed_offset\<close> is a platform whose local zone
  has one offset all year. The sample series holds the 24 hours of 2024-01-01, which
  starts 738885 days after 0001-01-01.
\<close>

definition price_024 :: pyfloat where
  "price_024 = PyFloat False 8646911284551352 (- 55)"

definition fixed_offset :: "int \<Rightarrow> dt_util" where
  "fixed_offset off = \<lparr>DEFAULT_TIME_ZONE = (\<lambda>_. off), get_time_zone = (\<lambda>_. Some (\<lambda>_. off))\<rparr>"

definition sample_hass :: HomeAssistant where
  "sample_hass = \<lparr>config = \<lparr>time_zone = ''Europe/Amsterdam''\<rparr>\<rparr>"

definition midnight_2024_01_01 :: datetime where
  "midnight_2024_01_01 = 738885 * day_us"

definition hourly_series :: "(datetime \<times> pyfloat) list" where
  "hourly_series = map (\<lambda>i. (midnight_2024_01_01 + int i * hour_us, price_024)) [0..<24]"

definition two_day_series :: "(datetime \<times> pyfloat) list" where
  "two_day_series =
     [(midnight_2024_01_01 + 5 * hour_us, price_024),
      (midnight_2024_01_01 + day_us + 7 * hour_us, price_024)]"

definition sample_electricity :: "(datetime \<times> pyfloat) list \<Rightarrow> Electricity" where
  "sample_electricity ps =
     \<lparr>Electricity.prices = ps,
      utcnow = midnight_2024_01_01 + 13 * hour_us,
      price_at_time = (\<lambda>t. Inr (map_of ps t)),
      current_price = Inr (map_of ps (midnight_2024_01_01 + 13 * hour_us)),
      average_price = Inr price_024,
      extreme_prices = Inr (price_024, price_024),
      highest_price_time = Inr midnight_2024_01_01,
      lowest_price_time = Inr midnight_2024_01_01,
      pct_of_max_price = Inl ZeroDivisionError,
      hours_priced_equal_or_lower = Inr 24\<rparr>"

definition sample_gas :: Gas where
  "sample_gas =
     \<lparr>Gas.prices = [(midnight_2024_01_01 + 14 * hour_us, price_024)],
      utcnow = midnight_2024_01_01 + 13 * hour_us,
      price_at_time = (\<lambda>t. Inr (map_of [(midnight_2024_01_01 + 14 * hour_us, price_024)] t)),
      current_price = Inr None\<rparr>"

definition sample_data :: "(datetime \<times> pyfloat) list \<Rightarrow> Gas option \<Rightarrow> EnergyZeroData" where
  "sample_data ps g = \<lparr>energy_today = sample_electricity ps, gas_today = g\<rparr>"

text \<open>
  A store with the electricity object (its dictionary in the order 07:00 of the second
  day, 05:00 of the first) and a gas object, and a second store that holds the same two
  objects at other addresses, next to an unrelated list. \<open>amsterdam_autumn_2024\<close> is a
  zone two hours east of UTC until 2024-10-27T01:00 UTC and one hour east from then on;
  the keys of \<open>fall_back_series\<close> are 22:00 UTC on 2024-10-26 and on 2024-10-27.
\<close>

definition sample_store :: store where
  "sample_store =
     \<lparr>objects = [ElectricityObj (sample_electricity (rev two_day_series)), GasObj sample_gas],
      clock = midnight_2024_01_01 + 13 * hour_us\<rparr>"

definition sample_ref :: EnergyZeroData_ref where
  "sample_ref = \<lparr>energy_today_ref = 0, gas_today_ref = Some 1\<rparr>"

definition other_store :: store where
  "other_store =
     \<lparr>objects = [GasObj sample_gas, ListObj [], ElectricityObj (sample_electricity (rev two_day_series))],
      clock = midnight_2024_01_01 + 13 * hour_us\<rparr>"

definition other_ref :: EnergyZeroData_ref where
  "other_ref = \<lparr>energy_today_ref = 2, gas_today_ref = Some 0\<rparr>"

definition amsterdam_autumn_2024 :: dt_util where
  "amsterdam_autumn_2024 =
     \<lparr>DEFAULT_TIME_ZONE = (\<lambda>u. if u < 739185 * day_us + hour_us then 2 * hour_us else hour_us),
      get_time_zone = (\<lambda>_. None)\<rparr>"

definition fall_back_series :: "(datetime \<times> pyfloat) list" where
  "fall_back_series =
     [(739184 * day_us + 22 * hour_us, price_024),
      (739185 * day_us + 22 * hour_us, price_024)]"

definition list_store :: store where
  "list_store = \<lparr>objects = [ListObj (rev two_day_series)], clock = 0\<rparr>"

section \<open>Properties of the runtime functions\<close>

lemma is_digit_digit_char: "d < 10 \<Longrightarrow> is_digit (digit_char d)"
  unfolding is_digit_def digit_char_def by (rule nth_mem) simp

lemma dec_all_digits: "\<forall>c \<in> set (dec n). is_digit c"
proof (induction n rule: dec.induct)
  case (1 n)
  show ?case
  proof (cases "n < 10")
    case True
    then show ?thesis by (simp add: dec.simps [of n] is_digit_digit_char)
  next
    case False
    with 1 show ?thesis by (simp add: dec.simps [of n] is_digit_digit_char)
  qed
qed

lemma dec_nonempty: "dec n \<noteq> []"
  by (simp add: dec.simps [of n])

lemma dec_one_digit: "n < 10 \<Longrightarrow> dec n = [digit_char n]"
  by (simp add: dec.simps [of n])

lemma dec_two_digits: "10 \<le> n \<Longrightarrow> n < 100 \<Longrightarrow> dec n = [digit_char (n div 10), digit_char (n mod 10)]"
  by (simp add: dec.simps [of n] dec_one_digit)

lemma pad2_two_digits:
  "n < 100 \<Longrightarrow> \<exists>d1 d2. pad2 n = [d1, d2] \<and> is_digit d1 \<and> is_digit d2"
proof (cases "n < 10")
  case True
  have "is_digit CHR ''0''" by (simp add: is_digit_def)
  with True show ?thesis by (simp add: pad2_def dec_one_digit is_digit_digit_char)
next
  case False
  assume "n < 100"
  with False show ?thesis by (simp add: pad2_def dec_two_digits is_digit_digit_char)
qed

lemma hour_less_24: "hour t < 24"
  by (simp add: hour_def)

lemma is_price_format_2f: "is_price (format_2f v)"
proof -
  define h where "h = hundredths v"
  obtain d1 d2 where p: "pad2 (h mod 100) = [d1, d2]" "is_digit d1" "is_digit d2"
    using pad2_two_digits [of "h mod 100"] by auto
  let ?ds = "dec (h div 100)"
  have nd: "\<not> is_digit CHR ''.''" by (simp add: is_digit_def)
  have tw: "takeWhile is_digit (?ds @ CHR ''.'' # [d1, d2]) = ?ds"
    using dec_all_digits nd by (simp add: takeWhile_tail)
  have dw: "dropWhile is_digit (?ds @ CHR ''.'' # [d1, d2]) = CHR ''.'' # [d1, d2]"
    using dec_all_digits nd by (simp add: dropWhile_append3)
  have hdd: "hd ?ds \<noteq> CHR ''-''"
    using dec_all_digits [of "h div 100"] dec_nonempty [of "h div 100"]
    by (cases ?ds) (auto simp: is_digit_def)
  have "strip_sign (format_2f v) = ?ds @ CHR ''.'' # [d1, d2]"
  proof (cases "negative v")
    case True
    then show ?thesis by (simp add: format_2f_def h_def [symmetric] p)
  next
    case False
    then have f: "format_2f v = ?ds @ CHR ''.'' # [d1, d2]"
      by (simp add: format_2f_def h_def [symmetric] p)
    obtain c r where cr: "?ds = c # r" using dec_nonempty [of "h div 100"] by (cases ?ds) auto
    with hdd have "c \<noteq> CHR ''-''" by simp
    then show ?thesis using f cr by simp
  qed
  then show ?thesis using tw dw p dec_nonempty by (simp add: is_price_def)
qed

lemma token_form_format_entry: "token_form (format_entry e)"
proof -
  obtain k v where e: "e = (k, v)" by (cases e)
  obtain d1 d2 where p: "pad2 (hour k) = [d1, d2]" "is_digit d1" "is_digit d2"
    using pad2_two_digits [of "hour k"] hour_less_24 [of k] by auto
  show ?thesis using p is_price_format_2f [of v] by (simp add: e token_form_def)
qed

lemma mset_insort_lt: "mset (insort_lt x xs) = add_mset x (mset xs)"
  by (induction xs) auto

lemma mset_sorted_py: "mset (sorted_py xs) = mset xs"
  unfolding sorted_py_def by (induction xs) (auto simp: mset_insort_lt)

lemma length_sorted_py: "length (sorted_py xs) = length xs"
  using mset_sorted_py [of xs] by (metis size_mset)

lemma set_sorted_py: "set (sorted_py xs) = set xs"
  using mset_sorted_py [of xs] by (metis set_mset_mset)

lemma tuple_lt_fst: "tuple_lt y x \<Longrightarrow> fst y \<le> fst x"
  by (cases x; cases y) (auto split: if_splits)

lemma not_tuple_lt_fst: "\<not> tuple_lt y x \<Longrightarrow> fst x \<le> fst y"
  by (cases x; cases y) (auto split: if_splits)

lemma set_insort_lt: "set (insort_lt x xs) = insert x (set xs)"
  using mset_insort_lt [of x xs] by (metis set_mset_mset set_mset_add_mset_insert)

lemma sorted_insort_lt:
  "sorted (map fst xs) \<Longrightarrow> sorted (map fst (insort_lt x xs))"
proof (induction xs)
  case Nil
  then show ?case by simp
next
  case (Cons y ys)
  show ?case
  proof (cases "tuple_lt y x")
    case True
    then have "fst y \<le> fst x" by (rule tuple_lt_fst)
    with Cons True show ?thesis by (auto simp: set_insort_lt)
  next
    case False
    then have "fst x \<le> fst y" by (rule not_tuple_lt_fst)
    with Cons False show ?thesis by auto
  qed
qed

lemma sorted_sorted_py: "sorted (map fst (sorted_py xs))"
  unfolding sorted_py_def by (induction xs) (auto simp: sorted_insort_lt)

lemma str_split_no_sep: "c \<notin> set t \<Longrightarrow> str_split c t = [t]"
  by (induction t) auto

lemma str_split_append_sep: "c \<notin> set t \<Longrightarrow> str_split c (t @ c # r) = t # str_split c r"
  by (induction t) auto

lemma str_split_join_sep:
  "sep = [c] \<Longrightarrow> ts \<noteq> [] \<Longrightarrow> \<forall>t \<in> set ts. c \<notin> set t \<Longrightarrow>
     str_split c (str_join sep ts) = ts"
proof (induction sep ts rule: str_join.induct)
  case (1 sep)
  then show ?case by simp
next
  case (2 sep x)
  then show ?case by (simp add: str_split_no_sep)
next
  case (3 sep x y ys)
  then show ?case by (simp add: str_split_append_sep)
qed

lemma str_split_join:
  "ts \<noteq> [] \<Longrightarrow> \<forall>t \<in> set ts. c \<notin> set t \<Longrightarrow> str_split c (str_join [c] ts) = ts"
  by (rule str_split_join_sep) simp_all

lemma str_join_empty_iff:
  "\<forall>t \<in> set ts. t \<noteq> [] \<Longrightarrow> str_join sep ts = [] \<longleftrightarrow> ts = []"
  by (induction sep ts rule: str_join.induct) auto

lemma tokens_of_join:
  assumes "\<forall>t \<in> set ts. t \<noteq> [] \<and> CHR '','' \<notin> set t"
  shows "tokens_of (str_join '','' ts) = ts"
proof (cases "ts = []")
  case True
  then show ?thesis by (simp add: tokens_of_def)
next
  case False
  with assms have "str_join '','' ts \<noteq> []" by (simp add: str_join_empty_iff)
  with assms False show ?thesis
    using str_split_join [of ts "CHR '',''"] by (simp add: tokens_of_def)
qed

lemma pad2_digits: "\<forall>c \<in> set (pad2 n). is_digit c"
proof -
  have "is_digit CHR ''0''" by (simp add: is_digit_def)
  then show ?thesis using dec_all_digits [of n] by (simp add: pad2_def)
qed

lemma comma_not_digit: "\<not> is_digit CHR '',''"
  by (simp add: is_digit_def)

lemma format_2f_no_comma: "CHR '','' \<notin> set (format_2f v)"
proof
  assume "CHR '','' \<in> set (format_2f v)"
  then have "CHR '','' \<in> set (dec (hundredths v div 100)) \<or>
             CHR '','' \<in> set (pad2 (hundredths v mod 100))"
    by (simp add: format_2f_def Let_def split: if_splits)
  then show False
    using dec_all_digits [of "hundredths v div 100"] pad2_digits [of "hundredths v mod 100"]
      comma_not_digit by blast
qed

lemma format_entry_no_comma: "CHR '','' \<notin> set (format_entry e)"
proof
  obtain k v where e: "e = (k, v)" by (cases e)
  assume "CHR '','' \<in> set (format_entry e)"
  then have "CHR '','' \<in> set (pad2 (hour k)) \<or> CHR '','' \<in> set (format_2f v)"
    by (simp add: e)
  then show False
    using pad2_digits [of "hour k"] format_2f_no_comma [of v] comma_not_digit by blast
qed

lemma format_entry_nonempty: "format_entry e \<noteq> []"
  by (cases e) simp

lemma tokens_of_process:
  "tokens_of (process_timestamp_prices dt hass data) =
     map format_entry (local_prices dt (Electricity.prices (energy_today data)))"
  unfolding process_timestamp_prices_def Let_def
  by (rule tokens_of_join) (auto simp: format_entry_no_comma format_entry_nonempty)

lemma local_time_simp:
  "replace_tzinfo_None (as_local tz (replace_tzinfo_UTC k)) = k + tz k"
  by (simp add: replace_tzinfo_None_def as_local_def replace_tzinfo_UTC_def)

lemma date_as_hours: "date t = (t div hour_us) div 24"
proof -
  have "t div (hour_us * 24) = t div hour_us div 24"
    by (rule zdiv_zmult2_eq) simp
  moreover have "hour_us * 24 = day_us" by (simp add: hour_us_def day_us_def)
  ultimately show ?thesis by (simp add: date_def)
qed

lemma hour_alt: "int (hour t) = t div hour_us - 24 * date t"
proof -
  define a where "a = t div hour_us"
  have "int (hour t) = a mod 24" by (simp add: hour_def a_def)
  also have "\<dots> = a - 24 * (a div 24)" by presburger
  finally show ?thesis by (simp add: date_as_hours a_def)
qed

lemma hour_mono_same_date:
  assumes "s \<le> t" "date s = date t"
  shows "hour s \<le> hour t"
proof -
  have "s div hour_us \<le> t div hour_us"
    using assms(1) by (intro zdiv_mono1) (simp_all add: hour_us_def)
  then have "int (hour s) \<le> int (hour t)" using assms(2) by (simp only: hour_alt)
  then show ?thesis by simp
qed

lemma date_mono: "s \<le> t \<Longrightarrow> date s \<le> date t"
  unfolding date_def by (intro zdiv_mono1) (simp_all add: day_us_def)

lemma upt_24: "[0..<24] = [0,1,2,3,4,5,6,7,8,9,10,11,12,13,14,15,16,17,18,19,20,21,22,23]"
  by (simp add: upt_rec_numeral upt_conv_Cons)

lemmas eval_defs = local_prices_def sorted_py_def
  replace_tzinfo_None_def as_local_def replace_tzinfo_UTC_def
  format_2f_def hundredths_def round_half_even_def pad2_def dec.simps digit_char_def
  hour_def date_def hour_us_def day_us_def float_lt_def float_eq_def scaled_def
  price_024_def fixed_offset_def midnight_2024_01_01_def hourly_series_def two_day_series_def

lemma prices_sample_data [simp]:
  "Electricity.prices (energy_today (sample_data ps g)) = ps"
  by (simp add: sample_data_def sample_electricity_def)

lemma process_timestamp_prices_eq:
  "process_timestamp_prices dt hass data =
     str_join '','' (map format_entry (local_prices dt (Electricity.prices (energy_today data))))"
  by (simp add: process_timestamp_prices_def Let_def)

lemma sorted_hours_same_date:
  assumes "sorted (map fst xs)" "\<forall>e \<in> set xs. date (fst e) = d"
  shows "sorted (map (hour \<circ> fst) xs)"
proof -
  have "sorted_wrt (\<lambda>a b. fst a \<le> fst b) xs"
    using assms(1) by (simp add: sorted_map)
  then have "sorted_wrt (\<lambda>a b. hour (fst a) \<le> hour (fst b)) xs"
  proof (rule sorted_wrt_mono_rel [rotated])
    fix a b assume "a \<in> set xs" "b \<in> set xs" "fst a \<le> fst b"
    then show "hour (fst a) \<le> hour (fst b)"
      using assms(2) by (intro hour_mono_same_date) auto
  qed
  then show ?thesis by (simp add: sorted_map comp_def)
qed

section \<open>The hourly rendering\<close>

text \<open>
  Claim C1, as amended. For every 24-entry electricity series the rendering has exactly 24
  comma-separated tokens, each of the form \<open>HH:D.DD\<close> (two hour digits, a colon, the
  price with an optional sign, its integer digits, a point and exactly two fractional
  digits), and the tokens are in ascending order of the naive local datetime. The hour
  numbers themselves ascend when all local datetimes lie on one local calendar day.
\<close>

theorem render_24_tokens:
  "length (Electricity.prices (energy_today data)) = 24 \<Longrightarrow>
   length (tokens_of (process_timestamp_prices dt hass data)) = 24 \<and>
   (\<forall>t \<in> set (tokens_of (process_timestamp_prices dt hass data)). token_form t) \<and>
   tokens_of (process_timestamp_prices dt hass data) =
     map format_entry (local_prices dt (Electricity.prices (energy_today data))) \<and>
   sorted (map fst (local_prices dt (Electricity.prices (energy_today data)))) \<and>
   ((\<forall>e \<in> set (local_prices dt (Electricity.prices (energy_today data))). date (fst e) = d) \<longrightarrow>
      sorted (map (hour \<circ> fst) (local_prices dt (Electricity.prices (energy_today data)))))"
proof -
  assume len: "length (Electricity.prices (energy_today data)) = 24"
  let ?L = "local_prices dt (Electricity.prices (energy_today data))"
  have t: "tokens_of (process_timestamp_prices dt hass data) = map format_entry ?L"
    by (rule tokens_of_process)
  have l: "length ?L = 24"
    using len by (simp add: local_prices_def length_sorted_py)
  have s: "sorted (map fst ?L)"
    by (simp add: local_prices_def sorted_sorted_py)
  have f: "\<forall>t \<in> set (map format_entry ?L). token_form t"
    by (simp add: token_form_format_entry)
  have h: "(\<forall>e \<in> set ?L. date (fst e) = d) \<longrightarrow> sorted (map (hour \<circ> fst) ?L)"
    using s sorted_hours_same_date by blast
  show ?thesis
    unfolding t using l s f h by simp
qed

text \<open>
  The theorem at the 24 hours of 2024-01-01 shown at offset zero: one calendar day, the
  hours ascend.
\<close>

theorem render_24_tokens_witness:
  "length hourly_series = 24 \<and>
   length (tokens_of (process_timestamp_prices (fixed_offset 0) sample_hass
      (sample_data hourly_series None))) = 24 \<and>
   sorted (map (hour \<circ> fst) (local_prices (fixed_offset 0) hourly_series))"
proof -
  have n: "length (Electricity.prices (energy_today (sample_data hourly_series None))) = 24"
    by (simp add: hourly_series_def)
  have d: "\<forall>e \<in> set (local_prices (fixed_offset 0) hourly_series). date (fst e) = 738885"
    by (simp add: eval_defs upt_24)
  have a: "length hourly_series = 24" by (simp add: hourly_series_def)
  show ?thesis
    using render_24_tokens [OF n, of "fixed_offset 0" sample_hass 738885] a d
    unfolding prices_sample_data by blast
qed

text \<open>
  Claim C1 as stated fails: the 24 UTC hours of 2024-01-01 shown at UTC+1 are the local
  hours 01 to 23 of that day and then 00 of the next day, and the rendering keeps that
  order.
\<close>

theorem render_hour_order_counterexample:
  "length hourly_series = 24 \<and>
   process_timestamp_prices (fixed_offset hour_us) sample_hass (sample_data hourly_series None) =
     ''01:0.24,02:0.24,03:0.24,04:0.24,05:0.24,06:0.24,07:0.24,08:0.24,09:0.24,10:0.24,11:0.24,12:0.24,13:0.24,14:0.24,15:0.24,16:0.24,17:0.24,18:0.24,19:0.24,20:0.24,21:0.24,22:0.24,23:0.24,00:0.24'' \<and>
   map (hour \<circ> fst) (local_prices (fixed_offset hour_us) hourly_series) =
     [1,2,3,4,5,6,7,8,9,10,11,12,13,14,15,16,17,18,19,20,21,22,23,0] \<and>
   \<not> sorted (map (hour \<circ> fst) (local_prices (fixed_offset hour_us) hourly_series))"
proof -
  have a: "length hourly_series = 24" by (simp add: hourly_series_def)
  have b: "map (hour \<circ> fst) (local_prices (fixed_offset hour_us) hourly_series) =
     [1,2,3,4,5,6,7,8,9,10,11,12,13,14,15,16,17,18,19,20,21,22,23,0]"
    by (simp add: eval_defs upt_24)
  have c: "process_timestamp_prices (fixed_offset hour_us) sample_hass (sample_data hourly_series None) =
     ''01:0.24,02:0.24,03:0.24,04:0.24,05:0.24,06:0.24,07:0.24,08:0.24,09:0.24,10:0.24,11:0.24,12:0.24,13:0.24,14:0.24,15:0.24,16:0.24,17:0.24,18:0.24,19:0.24,20:0.24,21:0.24,22:0.24,23:0.24,00:0.24''"
    unfolding process_timestamp_prices_eq prices_sample_data by (simp add: eval_defs upt_24)
  have d: "\<not> sorted (map (hour \<circ> fst) (local_prices (fixed_offset hour_us) hourly_series))"
    unfolding b by simp
  show ?thesis using a b c d by blast
qed

lemma hour_after_midnight: "hour (d * day_us + h * hour_us) = nat (h mod 24)"
proof -
  have "d * day_us + h * hour_us = (24 * d + h) * hour_us"
    by (simp add: day_us_def hour_us_def algebra_simps)
  moreover have "(24 * d + h) * hour_us div hour_us = 24 * d + h"
    by (simp add: hour_us_def)
  ultimately have "(d * day_us + h * hour_us) div hour_us = 24 * d + h"
    by (simp only:)
  then show ?thesis by (simp add: hour_def)
qed

lemma format_2f_price_024: "format_2f price_024 = ''0.24''"
  by (simp add: format_2f_def hundredths_def round_half_even_def pad2_def dec.simps
      digit_char_def price_024_def)

lemma pad2_1: "pad2 (Suc 0) = ''01''"
  by (simp add: pad2_def dec.simps digit_char_def)

text \<open>
  Claim C2. The series with the single key 00:00 (of any day) and the price 0.24, with a
  local zone one hour east of UTC, renders as exactly \<open>01:0.24\<close>.
\<close>

theorem render_singleton_utc_plus_1:
  "process_timestamp_prices (dt\<lparr>DEFAULT_TIME_ZONE := (\<lambda>_. timedelta_hours 1)\<rparr>) hass
     (data\<lparr>energy_today := (energy_today data)\<lparr>Electricity.prices := [(d * day_us, price_024)]\<rparr>\<rparr>)
   = ''01:0.24''"
proof -
  have "hour (d * day_us + 1 * hour_us) = nat (1 mod 24)" by (rule hour_after_midnight)
  then have "hour (d * day_us + hour_us) = Suc 0" by simp
  then show ?thesis
    by (simp add: process_timestamp_prices_eq local_prices_def sorted_py_def local_time_simp
        timedelta_hours_def format_2f_price_024 pad2_1)
qed

text \<open>
  Claim C3. Each key is read as UTC, shown in the local zone \<open>DEFAULT_TIME_ZONE\<close> (the zone
  the platform sets from its configuration) and stripped of its offset, which leaves the
  naive wall-clock time \<open>k + offset k\<close>; the rendered tokens are, up to their order, the
  entries of the series labelled with the hour of that wall-clock time. Nothing of the
  offset is kept, so two keys with the same wall-clock time get the same label.
\<close>

theorem render_uses_naive_local_hour:
  "replace_tzinfo_None (as_local (DEFAULT_TIME_ZONE dt) (replace_tzinfo_UTC k)) =
     k + DEFAULT_TIME_ZONE dt k \<and>
   mset (tokens_of (process_timestamp_prices dt hass data)) =
     mset (map (\<lambda>(k, v). pad2 (hour (k + DEFAULT_TIME_ZONE dt k)) @ '':'' @ format_2f v)
            (Electricity.prices (energy_today data)))"
proof -
  let ?g = "\<lambda>(k, v). (replace_tzinfo_None (as_local (DEFAULT_TIME_ZONE dt) (replace_tzinfo_UTC k)), v)"
  let ?ps = "Electricity.prices (energy_today data)"
  have "mset (tokens_of (process_timestamp_prices dt hass data)) =
        image_mset format_entry (mset (sorted_py (map ?g ?ps)))"
    by (simp add: tokens_of_process local_prices_def)
  also have "\<dots> = mset (map (format_entry \<circ> ?g) ?ps)"
    by (simp add: mset_sorted_py multiset.map_comp)
  also have "format_entry \<circ> ?g = (\<lambda>(k, v). pad2 (hour (k + DEFAULT_TIME_ZONE dt k)) @ '':'' @ format_2f v)"
    by (auto simp: fun_eq_iff local_time_simp)
  finally show ?thesis by (simp add: local_time_simp)
qed

text \<open>
  Claim C4. The empty series renders as the empty string, and for every series the
  function returns a string.
\<close>

theorem render_empty_series:
  "process_timestamp_prices dt hass
     (data\<lparr>energy_today := (energy_today data)\<lparr>Electricity.prices := []\<rparr>\<rparr>) = '''' \<and>
   (\<exists>s :: string. process_timestamp_prices dt hass data = s)"
  by (simp add: process_timestamp_prices_eq local_prices_def sorted_py_def)


lemma sorted_fst_before:
  assumes "sorted (map fst xs)" "a \<in> set xs" "b \<in> set xs" "fst a < fst b"
  shows "\<exists>i j. i < j \<and> j < length xs \<and> xs ! i = a \<and> xs ! j = b"
proof -
  obtain i where i: "i < length xs" "xs ! i = a"
    using assms(2) by (auto simp: in_set_conv_nth)
  obtain j where j: "j < length xs" "xs ! j = b"
    using assms(3) by (auto simp: in_set_conv_nth)
  have "i < j"
  proof (rule ccontr)
    assume "\<not> i < j"
    then have "j \<le> i" by simp
    then have "map fst xs ! j \<le> map fst xs ! i"
      using assms(1) i(1) by (intro sorted_nth_mono) simp_all
    then show False using i j assms(4) by simp
  qed
  then show ?thesis using i j by blast
qed

lemma later_date_later_time: "date s < date t \<Longrightarrow> s < t"
  using date_mono [of t s] by (cases "s < t") auto

lemma hours_wrap_not_sorted:
  assumes "sorted (map fst xs)" "a \<in> set xs" "b \<in> set xs"
    and "date (fst a) < date (fst b)" "hour (fst b) < hour (fst a)"
  shows "\<not> sorted (map (hour \<circ> fst) xs)"
proof
  assume s: "sorted (map (hour \<circ> fst) xs)"
  have "fst a < fst b" using assms(4) by (rule later_date_later_time)
  then obtain i j where ij: "i < j" "j < length xs" "xs ! i = a" "xs ! j = b"
    using sorted_fst_before [OF assms(1-3)] by blast
  have "map (hour \<circ> fst) xs ! i \<le> map (hour \<circ> fst) xs ! j"
    using s ij(1,2) by (intro sorted_nth_mono) simp_all
  then show False using ij assms(5) by simp
qed

lemma sorted_dates:
  assumes "sorted (map fst xs)"
  shows "sorted (map (date \<circ> fst) xs)"
proof -
  have "sorted_wrt (\<lambda>a b. fst a \<le> fst b) xs"
    using assms by (simp add: sorted_map)
  then have "sorted_wrt (\<lambda>a b. date (fst a) \<le> date (fst b)) xs"
    by (rule sorted_wrt_mono_rel [rotated]) (simp add: date_mono)
  then show ?thesis by (simp add: sorted_map comp_def)
qed

text \<open>
  Claim C9, as amended. The entries are rendered in ascending order of the full naive
  local datetime, so all entries of an earlier local day come before those of a later
  day. Whenever an entry of a later day has a smaller hour of day than an entry of an
  earlier day (as 00 after 23), the sequence of hour labels is not ascending.
\<close>

theorem render_sorted_by_datetime:
  "tokens_of (process_timestamp_prices dt hass data) =
     map format_entry (local_prices dt (Electricity.prices (energy_today data))) \<and>
   sorted (map fst (local_prices dt (Electricity.prices (energy_today data)))) \<and>
   sorted (map (date \<circ> fst) (local_prices dt (Electricity.prices (energy_today data)))) \<and>
   (\<forall>a \<in> set (local_prices dt (Electricity.prices (energy_today data))).
    \<forall>b \<in> set (local_prices dt (Electricity.prices (energy_today data))).
      date (fst a) < date (fst b) \<and> hour (fst b) < hour (fst a) \<longrightarrow>
      \<not> sorted (map (hour \<circ> fst) (local_prices dt (Electricity.prices (energy_today data)))))"
proof -
  let ?L = "local_prices dt (Electricity.prices (energy_today data))"
  have s: "sorted (map fst ?L)"
    by (simp add: local_prices_def sorted_sorted_py)
  have w: "\<forall>a \<in> set ?L. \<forall>b \<in> set ?L.
      date (fst a) < date (fst b) \<and> hour (fst b) < hour (fst a) \<longrightarrow>
      \<not> sorted (map (hour \<circ> fst) ?L)"
    using hours_wrap_not_sorted [OF s] by blast
  show ?thesis
    using tokens_of_process [of dt hass data] s sorted_dates [OF s] w by blast
qed

text \<open>
  The theorem at the 24 UTC hours of 2024-01-01 shown at UTC+1: the entry at local 00:00
  of the next day follows the entry at local 23:00.
\<close>

theorem render_sorted_by_datetime_witness:
  "(midnight_2024_01_01 + 23 * hour_us, price_024)
     \<in> set (local_prices (fixed_offset hour_us) hourly_series) \<and>
   (midnight_2024_01_01 + 24 * hour_us, price_024)
     \<in> set (local_prices (fixed_offset hour_us) hourly_series) \<and>
   date (midnight_2024_01_01 + 23 * hour_us) < date (midnight_2024_01_01 + 24 * hour_us) \<and>
   hour (midnight_2024_01_01 + 24 * hour_us) < hour (midnight_2024_01_01 + 23 * hour_us) \<and>
   \<not> sorted (map (hour \<circ> fst) (local_prices (fixed_offset hour_us) hourly_series))"
proof -
  let ?L = "local_prices (fixed_offset hour_us) hourly_series"
  let ?a = "(midnight_2024_01_01 + 23 * hour_us, price_024)"
  let ?b = "(midnight_2024_01_01 + 24 * hour_us, price_024)"
  have a: "?a \<in> set ?L"
    by (simp add: local_prices_def set_sorted_py local_time_simp hourly_series_def
        fixed_offset_def upt_24 hour_us_def)
  have b: "?b \<in> set ?L"
    by (simp add: local_prices_def set_sorted_py local_time_simp hourly_series_def
        fixed_offset_def upt_24 hour_us_def)
  have d: "date (fst ?a) < date (fst ?b)"
    by (simp add: date_def day_us_def hour_us_def midnight_2024_01_01_def)
  have h: "hour (fst ?b) < hour (fst ?a)"
    by (simp add: hour_def hour_us_def day_us_def midnight_2024_01_01_def)
  have "\<not> sorted (map (hour \<circ> fst) ?L)"
    using render_sorted_by_datetime [of "fixed_offset hour_us" sample_hass "sample_data hourly_series None"]
      a b d h unfolding prices_sample_data by blast
  then show ?thesis using a b d h by simp
qed

text \<open>
  Claim C9 as stated fails: a series with 05:00 of one day and 07:00 of the next spans two
  local calendar days, and its hour labels 05, 07 are ascending.
\<close>

theorem two_day_series_counterexample:
  "map (date \<circ> fst) (local_prices (fixed_offset 0) two_day_series) = [738885, 738886] \<and>
   map (hour \<circ> fst) (local_prices (fixed_offset 0) two_day_series) = [5, 7] \<and>
   sorted (map (hour \<circ> fst) (local_prices (fixed_offset 0) two_day_series)) \<and>
   process_timestamp_prices (fixed_offset 0) sample_hass (sample_data two_day_series None) =
     ''05:0.24,07:0.24''"
proof -
  have a: "map (date \<circ> fst) (local_prices (fixed_offset 0) two_day_series) = [738885, 738886]"
    by (simp add: eval_defs)
  have b: "map (hour \<circ> fst) (local_prices (fixed_offset 0) two_day_series) = [5, 7]"
    by (simp add: eval_defs)
  have c: "process_timestamp_prices (fixed_offset 0) sample_hass (sample_data two_day_series None) =
     ''05:0.24,07:0.24''"
    unfolding process_timestamp_prices_eq prices_sample_data by (simp add: eval_defs)
  have d: "sorted (map (hour \<circ> fst) (local_prices (fixed_offset 0) two_day_series))"
    unfolding b by simp
  show ?thesis using a b c d by blast
qed

lemma take_2_format_entry: "take 2 (format_entry (t, v)) = pad2 (hour t)"
proof -
  obtain d1 d2 where "pad2 (hour t) = [d1, d2]"
    using pad2_two_digits [of "hour t"] hour_less_24 [of t] by auto
  then show ?thesis by simp
qed

lemma hour_plus_24: "hour (t + timedelta_hours 24) = hour t"
proof -
  have "(t + 24 * hour_us) div hour_us = t div hour_us + 24"
    by (simp add: hour_us_def)
  then show ?thesis by (simp add: hour_def timedelta_hours_def)
qed

text \<open>
  Claim C10, as amended. For a series of any size the rendering has one token per entry,
  and every entry \<open>(k, v)\<close> is rendered by some token. The first two characters of a token
  are the hour of day of the local datetime and nothing else, so two entries whose local
  datetimes are 24 hours apart carry the same hour label; two entries whose keys are 24
  hours apart do so when the zone has the same offset at both keys.
\<close>

theorem one_token_per_entry:
  "length (tokens_of (process_timestamp_prices dt hass data)) =
     length (Electricity.prices (energy_today data)) \<and>
   (\<forall>e \<in> set (Electricity.prices (energy_today data)).
      format_entry (fst e + DEFAULT_TIME_ZONE dt (fst e), snd e)
        \<in> set (tokens_of (process_timestamp_prices dt hass data))) \<and>
   take 2 (format_entry (t, v)) = pad2 (hour t) \<and>
   (\<forall>e1 \<in> set (Electricity.prices (energy_today data)).
    \<forall>e2 \<in> set (Electricity.prices (energy_today data)).
      fst e2 + DEFAULT_TIME_ZONE dt (fst e2) =
        fst e1 + DEFAULT_TIME_ZONE dt (fst e1) + timedelta_hours 24 \<longrightarrow>
      take 2 (format_entry (fst e2 + DEFAULT_TIME_ZONE dt (fst e2), snd e2)) =
      take 2 (format_entry (fst e1 + DEFAULT_TIME_ZONE dt (fst e1), snd e1))) \<and>
   (\<forall>e1 \<in> set (Electricity.prices (energy_today data)).
    \<forall>e2 \<in> set (Electricity.prices (energy_today data)).
      fst e2 = fst e1 + timedelta_hours 24 \<and>
      DEFAULT_TIME_ZONE dt (fst e2) = DEFAULT_TIME_ZONE dt (fst e1) \<longrightarrow>
      take 2 (format_entry (fst e2 + DEFAULT_TIME_ZONE dt (fst e2), snd e2)) =
      take 2 (format_entry (fst e1 + DEFAULT_TIME_ZONE dt (fst e1), snd e1)))"
proof -
  let ?ps = "Electricity.prices (energy_today data)"
  let ?g = "\<lambda>(k, v). (replace_tzinfo_None (as_local (DEFAULT_TIME_ZONE dt) (replace_tzinfo_UTC k)), v)"
  have t: "tokens_of (process_timestamp_prices dt hass data) = map format_entry (local_prices dt ?ps)"
    by (rule tokens_of_process)
  have n: "length (local_prices dt ?ps) = length ?ps"
    by (simp add: local_prices_def length_sorted_py)
  have m: "\<forall>e \<in> set ?ps. (fst e + DEFAULT_TIME_ZONE dt (fst e), snd e) \<in> set (local_prices dt ?ps)"
  proof
    fix e assume "e \<in> set ?ps"
    then have "?g e \<in> set (local_prices dt ?ps)"
      by (simp add: local_prices_def set_sorted_py)
    then show "(fst e + DEFAULT_TIME_ZONE dt (fst e), snd e) \<in> set (local_prices dt ?ps)"
      by (cases e) (simp add: local_time_simp)
  qed
  have n2: "length (tokens_of (process_timestamp_prices dt hass data)) = length ?ps"
    unfolding t using n by simp
  have m2: "\<forall>e \<in> set ?ps. format_entry (fst e + DEFAULT_TIME_ZONE dt (fst e), snd e)
        \<in> set (tokens_of (process_timestamp_prices dt hass data))"
    unfolding t using m by (simp del: format_entry.simps)
  have l: "take 2 (format_entry (a + timedelta_hours 24, w)) = take 2 (format_entry (a, u))"
    for a w u
    by (simp only: take_2_format_entry hour_plus_24)
  have o: "\<forall>e1 \<in> set ?ps. \<forall>e2 \<in> set ?ps.
      fst e2 + DEFAULT_TIME_ZONE dt (fst e2) =
        fst e1 + DEFAULT_TIME_ZONE dt (fst e1) + timedelta_hours 24 \<longrightarrow>
      take 2 (format_entry (fst e2 + DEFAULT_TIME_ZONE dt (fst e2), snd e2)) =
      take 2 (format_entry (fst e1 + DEFAULT_TIME_ZONE dt (fst e1), snd e1))"
    using l by (simp del: format_entry.simps)
  have q: "\<forall>e1 \<in> set ?ps. \<forall>e2 \<in> set ?ps.
      fst e2 = fst e1 + timedelta_hours 24 \<and>
      DEFAULT_TIME_ZONE dt (fst e2) = DEFAULT_TIME_ZONE dt (fst e1) \<longrightarrow>
      take 2 (format_entry (fst e2 + DEFAULT_TIME_ZONE dt (fst e2), snd e2)) =
      take 2 (format_entry (fst e1 + DEFAULT_TIME_ZONE dt (fst e1), snd e1))"
  proof (intro ballI impI)
    fix e1 e2 :: "datetime \<times> pyfloat"
    assume h: "fst e2 = fst e1 + timedelta_hours 24 \<and>
      DEFAULT_TIME_ZONE dt (fst e2) = DEFAULT_TIME_ZONE dt (fst e1)"
    have a: "fst e2 = fst e1 + timedelta_hours 24" using h by (rule conjunct1)
    have b: "DEFAULT_TIME_ZONE dt (fst e2) = DEFAULT_TIME_ZONE dt (fst e1)"
      using h by (rule conjunct2)
    have "fst e2 + DEFAULT_TIME_ZONE dt (fst e2) =
        fst e1 + DEFAULT_TIME_ZONE dt (fst e1) + timedelta_hours 24"
      unfolding b using a by simp
    then show "take 2 (format_entry (fst e2 + DEFAULT_TIME_ZONE dt (fst e2), snd e2)) =
      take 2 (format_entry (fst e1 + DEFAULT_TIME_ZONE dt (fst e1), snd e1))"
      using l by (simp del: format_entry.simps)
  qed
  show ?thesis
    using n2 m2 take_2_format_entry [of t v] o q by (intro conjI)
qed

text \<open>
  The theorem at the two keys of \<open>fall_back_series\<close> in a zone without an offset: both are
  rendered, with the label 22.
\<close>

theorem one_token_per_entry_witness:
  "length (tokens_of (process_timestamp_prices (fixed_offset 0) sample_hass
      (sample_data fall_back_series None))) = 2 \<and>
   format_entry (739184 * day_us + 22 * hour_us, price_024) = ''22:0.24'' \<and>
   ''22:0.24'' \<in> set (tokens_of (process_timestamp_prices (fixed_offset 0) sample_hass
      (sample_data fall_back_series None))) \<and>
   take 2 (format_entry (739185 * day_us + 22 * hour_us, price_024)) = ''22''"
proof -
  let ?k1 = "739184 * day_us + 22 * hour_us"
  let ?k2 = "739185 * day_us + 22 * hour_us"
  note inst = one_token_per_entry [of "fixed_offset 0" sample_hass "sample_data fall_back_series None"
      ?k1 price_024, unfolded prices_sample_data]
  have e1: "(?k1, price_024) \<in> set fall_back_series"
    by (simp add: fall_back_series_def)
  have e2: "(?k2, price_024) \<in> set fall_back_series"
    by (simp add: fall_back_series_def)
  have z: "DEFAULT_TIME_ZONE (fixed_offset 0) k = 0" for k
    by (simp add: fixed_offset_def)
  have f: "format_entry (?k1, price_024) = ''22:0.24''"
    by (simp add: eval_defs)
  have n: "length fall_back_series = 2" by (simp add: fall_back_series_def)
  have c1: "length (tokens_of (process_timestamp_prices (fixed_offset 0) sample_hass
      (sample_data fall_back_series None))) = length fall_back_series"
    using inst by (rule conjunct1)
  have "\<forall>e \<in> set fall_back_series.
      format_entry (fst e + DEFAULT_TIME_ZONE (fixed_offset 0) (fst e), snd e)
        \<in> set (tokens_of (process_timestamp_prices (fixed_offset 0) sample_hass
              (sample_data fall_back_series None)))"
    using inst by (rule conjunct2 [THEN conjunct1])
  from bspec [OF this e1]
  have "format_entry (?k1, price_024)
      \<in> set (tokens_of (process_timestamp_prices (fixed_offset 0) sample_hass
              (sample_data fall_back_series None)))"
    by (simp add: z del: format_entry.simps)
  then have c2: "''22:0.24'' \<in> set (tokens_of (process_timestamp_prices (fixed_offset 0) sample_hass
      (sample_data fall_back_series None)))"
    unfolding f .
  have "\<forall>e1 \<in> set fall_back_series. \<forall>e2 \<in> set fall_back_series.
      fst e2 = fst e1 + timedelta_hours 24 \<and>
      DEFAULT_TIME_ZONE (fixed_offset 0) (fst e2) = DEFAULT_TIME_ZONE (fixed_offset 0) (fst e1) \<longrightarrow>
      take 2 (format_entry (fst e2 + DEFAULT_TIME_ZONE (fixed_offset 0) (fst e2), snd e2)) =
      take 2 (format_entry (fst e1 + DEFAULT_TIME_ZONE (fixed_offset 0) (fst e1), snd e1))"
    using inst by (rule conjunct2 [THEN conjunct2, THEN conjunct2, THEN conjunct2])
  from bspec [OF bspec [OF this e1] e2]
  have "take 2 (format_entry (?k2, price_024)) = take 2 (format_entry (?k1, price_024))"
    by (simp add: z timedelta_hours_def day_us_def hour_us_def del: format_entry.simps)
  then have c4: "take 2 (format_entry (?k2, price_024)) = ''22''"
    unfolding f by simp
  show ?thesis
    using c1 n c2 c4 f by (simp only:)
qed

lemma fall_back_local_prices:
  "local_prices amsterdam_autumn_2024 fall_back_series =
     [(739185 * day_us, price_024), (739185 * day_us + 23 * hour_us, price_024)]"
  by (simp add: local_prices_def sorted_py_def local_time_simp amsterdam_autumn_2024_def
      fall_back_series_def day_us_def hour_us_def)

text \<open>
  Claim C10 as stated fails where the offset changes: in Amsterdam the keys 22:00 UTC of
  2024-10-26 and of 2024-10-27 are 24 hours apart and are rendered as 00 and 23.
\<close>

theorem keys_24h_apart_counterexample:
  "fall_back_series =
     [(739184 * day_us + 22 * hour_us, price_024),
      (739184 * day_us + 22 * hour_us + timedelta_hours 24, price_024)] \<and>
   process_timestamp_prices amsterdam_autumn_2024 sample_hass (sample_data fall_back_series None) =
     ''00:0.24,23:0.24'' \<and>
   take 2 (format_entry (739184 * day_us + 22 * hour_us +
       DEFAULT_TIME_ZONE amsterdam_autumn_2024 (739184 * day_us + 22 * hour_us), price_024)) = ''00'' \<and>
   take 2 (format_entry (739184 * day_us + 22 * hour_us + timedelta_hours 24 +
       DEFAULT_TIME_ZONE amsterdam_autumn_2024 (739184 * day_us + 22 * hour_us + timedelta_hours 24),
       price_024)) = ''23''"
proof -
  have a: "fall_back_series =
     [(739184 * day_us + 22 * hour_us, price_024),
      (739184 * day_us + 22 * hour_us + timedelta_hours 24, price_024)]"
    by (simp add: fall_back_series_def timedelta_hours_def day_us_def hour_us_def)
  have b: "process_timestamp_prices amsterdam_autumn_2024 sample_hass (sample_data fall_back_series None) =
     ''00:0.24,23:0.24''"
    unfolding process_timestamp_prices_eq prices_sample_data fall_back_local_prices
    by (simp add: format_2f_def hundredths_def round_half_even_def pad2_def dec.simps digit_char_def
        hour_def hour_us_def day_us_def price_024_def)
  have c: "take 2 (format_entry (739184 * day_us + 22 * hour_us +
       DEFAULT_TIME_ZONE amsterdam_autumn_2024 (739184 * day_us + 22 * hour_us), price_024)) = ''00''"
    unfolding take_2_format_entry
    by (simp add: amsterdam_autumn_2024_def pad2_def dec.simps digit_char_def
        hour_def hour_us_def day_us_def)
  have d: "take 2 (format_entry (739184 * day_us + 22 * hour_us + timedelta_hours 24 +
       DEFAULT_TIME_ZONE amsterdam_autumn_2024 (739184 * day_us + 22 * hour_us + timedelta_hours 24),
       price_024)) = ''23''"
    unfolding take_2_format_entry
    by (simp add: amsterdam_autumn_2024_def pad2_def dec.simps digit_char_def
        hour_def hour_us_def day_us_def timedelta_hours_def)
  show ?thesis using a b c d by (intro conjI)
qed

section \<open>The gas views and the next-hour views\<close>

lemma returning_Inr [simp]: "returning f (Inr a) = Inr (f a)"
  by (simp add: returning_def)

lemma returning_Inl [simp]: "returning f (Inl e) = Inl e"
  by (simp add: returning_def)

text \<open>
  Claim C5. With no gas series (\<open>gas_today\<close> is None) both gas views return None and do not
  raise, and so does \<open>get_gas_price\<close>; every electricity view has the value it has when a
  gas series is present.
\<close>

theorem gas_absent_views:
  "(\<forall>s \<in> set (SENSORS dt). service_type s = ''today_gas'' \<longrightarrow>
      native_value hass (data\<lparr>gas_today := None\<rparr>) s = Inr NoneVal) \<and>
   get_gas_price (data\<lparr>gas_today := None\<rparr>) hours = Inr None \<and>
   (\<forall>s \<in> set (SENSORS dt). service_type s = ''today_energy'' \<longrightarrow>
      native_value hass (data\<lparr>gas_today := None\<rparr>) s =
      native_value hass (data\<lparr>gas_today := Some gas\<rparr>) s)"
  by (simp add: SENSORS_def native_value_def get_gas_price_def optional_float_def
      process_timestamp_prices_eq)

text \<open>The theorem at the sample snapshot, for both gas views and the electricity next-hour view.\<close>

theorem gas_absent_views_witness:
  "native_value sample_hass (sample_data hourly_series None) (SENSORS (fixed_offset 0) ! 0) = Inr NoneVal \<and>
   native_value sample_hass (sample_data hourly_series None) (SENSORS (fixed_offset 0) ! 1) = Inr NoneVal \<and>
   native_value sample_hass (sample_data hourly_series None) (SENSORS (fixed_offset 0) ! 3) =
     Inr (FloatVal price_024) \<and>
   native_value sample_hass (sample_data hourly_series (Some sample_gas)) (SENSORS (fixed_offset 0) ! 3) =
     Inr (FloatVal price_024)"
proof -
  let ?dt = "fixed_offset 0"
  let ?d = "sample_data hourly_series None"
  note inst = gas_absent_views [of ?dt sample_hass ?d 1 sample_gas]
  have u: "?d\<lparr>gas_today := None\<rparr> = ?d" "?d\<lparr>gas_today := Some sample_gas\<rparr> = sample_data hourly_series (Some sample_gas)"
    by (simp_all add: sample_data_def)
  have m0: "SENSORS ?dt ! 0 \<in> set (SENSORS ?dt)" by (simp add: SENSORS_def)
  have m1: "SENSORS ?dt ! 1 \<in> set (SENSORS ?dt)" by (simp add: SENSORS_def)
  have m3: "SENSORS ?dt ! 3 \<in> set (SENSORS ?dt)" by (simp add: SENSORS_def)
  have s0: "service_type (SENSORS ?dt ! 0) = ''today_gas''" by (simp add: SENSORS_def)
  have s1: "service_type (SENSORS ?dt ! 1) = ''today_gas''" by (simp add: SENSORS_def)
  have s3: "service_type (SENSORS ?dt ! 3) = ''today_energy''" by (simp add: SENSORS_def)
  have g0: "native_value sample_hass ?d (SENSORS ?dt ! 0) = Inr NoneVal"
    using inst m0 s0 unfolding u by blast
  have g1: "native_value sample_hass ?d (SENSORS ?dt ! 1) = Inr NoneVal"
    using inst m1 s1 unfolding u by blast
  have e3: "native_value sample_hass ?d (SENSORS ?dt ! 3) =
      native_value sample_hass (sample_data hourly_series (Some sample_gas)) (SENSORS ?dt ! 3)"
    using inst m3 s3 unfolding u by blast
  have v3: "native_value sample_hass ?d (SENSORS ?dt ! 3) = Inr (FloatVal price_024)"
    by (simp add: SENSORS_def native_value_def sample_data_def sample_electricity_def
        optional_float_def timedelta_hours_def hourly_series_def upt_24
        midnight_2024_01_01_def hour_us_def day_us_def)
  show ?thesis using g0 g1 e3 v3 by (simp only:)
qed

text \<open>
  Claim C6. The electricity next-hour view is \<open>price_at_time(utcnow() + 1 hour)\<close> on the
  electricity series; the gas next-hour view is \<open>get_gas_price(data, 1)\<close>, which is
  \<open>price_at_time(utcnow() + 1 hour)\<close> on the gas series when that series is present. Both
  views are in the table.
\<close>

theorem next_hour_views:
  "(\<forall>s \<in> set (SENSORS dt). key s = ''next_hour_price'' \<and> service_type s = ''today_energy'' \<longrightarrow>
      native_value hass data s =
        returning optional_float
          (Electricity.price_at_time (energy_today data)
             (Electricity.utcnow (energy_today data) + timedelta_hours 1))) \<and>
   (\<forall>s \<in> set (SENSORS dt). key s = ''next_hour_price'' \<and> service_type s = ''today_gas'' \<longrightarrow>
      native_value hass data s = returning optional_float (get_gas_price data 1)) \<and>
   (gas_today data = Some gas \<longrightarrow>
      get_gas_price data 1 = Gas.price_at_time gas (Gas.utcnow gas + timedelta_hours 1)) \<and>
   timedelta_hours 1 = 3600000000 \<and>
   (\<exists>s \<in> set (SENSORS dt). key s = ''next_hour_price'' \<and> service_type s = ''today_energy'') \<and>
   (\<exists>s \<in> set (SENSORS dt). key s = ''next_hour_price'' \<and> service_type s = ''today_gas'')"
  by (simp add: SENSORS_def native_value_def get_gas_price_def timedelta_hours_def hour_us_def)


text \<open>The theorem at the sample snapshot with a gas series.\<close>

theorem next_hour_views_witness:
  "native_value sample_hass (sample_data hourly_series (Some sample_gas)) (SENSORS (fixed_offset 0) ! 3) =
     returning optional_float
       (Electricity.price_at_time (sample_electricity hourly_series)
          (Electricity.utcnow (sample_electricity hourly_series) + timedelta_hours 1)) \<and>
   native_value sample_hass (sample_data hourly_series (Some sample_gas)) (SENSORS (fixed_offset 0) ! 1) =
     returning optional_float (Gas.price_at_time sample_gas (Gas.utcnow sample_gas + timedelta_hours 1)) \<and>
   returning optional_float (Gas.price_at_time sample_gas (Gas.utcnow sample_gas + timedelta_hours 1)) =
     Inr (FloatVal price_024)"
proof -
  let ?dt = "fixed_offset 0"
  let ?d = "sample_data hourly_series (Some sample_gas)"
  note inst = next_hour_views [of ?dt sample_hass ?d sample_gas]
  have m1: "SENSORS ?dt ! 1 \<in> set (SENSORS ?dt)" by (simp add: SENSORS_def)
  have m3: "SENSORS ?dt ! 3 \<in> set (SENSORS ?dt)" by (simp add: SENSORS_def)
  have k1: "key (SENSORS ?dt ! 1) = ''next_hour_price'' \<and> service_type (SENSORS ?dt ! 1) = ''today_gas''"
    by (simp add: SENSORS_def)
  have k3: "key (SENSORS ?dt ! 3) = ''next_hour_price'' \<and> service_type (SENSORS ?dt ! 3) = ''today_energy''"
    by (simp add: SENSORS_def)
  have g: "gas_today ?d = Some sample_gas" by (simp add: sample_data_def)
  have e: "energy_today ?d = sample_electricity hourly_series" by (simp add: sample_data_def)
  have a: "native_value sample_hass ?d (SENSORS ?dt ! 3) =
     returning optional_float
       (Electricity.price_at_time (sample_electricity hourly_series)
          (Electricity.utcnow (sample_electricity hourly_series) + timedelta_hours 1))"
    using inst m3 k3 unfolding e by blast
  have b1: "native_value sample_hass ?d (SENSORS ?dt ! 1) = returning optional_float (get_gas_price ?d 1)"
    using inst m1 k1 by blast
  have b2: "get_gas_price ?d 1 = Gas.price_at_time sample_gas (Gas.utcnow sample_gas + timedelta_hours 1)"
    using inst g by blast
  have c: "returning optional_float (Gas.price_at_time sample_gas (Gas.utcnow sample_gas + timedelta_hours 1)) =
     Inr (FloatVal price_024)"
    by (simp add: sample_gas_def optional_float_def timedelta_hours_def hour_us_def)
  show ?thesis using a b1 b2 c by (simp only:)
qed

section \<open>Frame and determinism\<close>

lemma unchanged_refl: "unchanged s s"
  by (simp add: unchanged_def)

lemma unchanged_trans: "unchanged s s1 \<Longrightarrow> unchanged s1 s2 \<Longrightarrow> unchanged s s2"
proof -
  assume a: "unchanged s s1" and b: "unchanged s1 s2"
  have l: "length (objects s) \<le> length (objects s1)"
    using a by (metis unchanged_def length_take min.cobounded1 min.commute)
  have "take (length (objects s)) (objects s2) =
        take (length (objects s)) (take (length (objects s1)) (objects s2))"
    using l by (simp add: min_def)
  also have "\<dots> = objects s" using a b by (simp add: unchanged_def)
  finally show ?thesis using a b by (simp add: unchanged_def)
qed

lemma frame_ret: "frame (ret x)"
  by (simp add: frame_def ret_def unchanged_refl)

lemma frame_raise: "frame (raise e)"
  by (simp add: frame_def raise_def unchanged_refl)

lemma frame_call: "frame (call r)"
  by (simp add: frame_def call_def unchanged_refl)

lemma frame_utcnow_call: "frame utcnow_call"
  by (simp add: frame_def utcnow_call_def unchanged_refl)

lemma frame_load: "frame (load a)"
  by (simp add: frame_def load_def unchanged_refl)

lemma frame_and_then:
  assumes "frame m" "\<And>x. frame (f x)"
  shows "frame (and_then m f)"
  unfolding frame_def
proof
  fix s
  obtain r s1 where m: "m s = (r, s1)" by (cases "m s")
  have u: "unchanged s s1" using assms(1) m by (auto simp: frame_def dest: spec [of _ s])
  show "unchanged s (snd (and_then m f s))"
  proof (cases r)
    case (Inl e)
    then show ?thesis using m u by (simp add: and_then_def)
  next
    case (Inr x)
    have "unchanged s1 (snd (f x s1))" using assms(2) [of x] by (simp add: frame_def)
    then show ?thesis using m u Inr by (auto simp: and_then_def intro: unchanged_trans)
  qed
qed

lemma frame_get_electricity: "frame (get_electricity a)"
  unfolding get_electricity_def
  by (intro frame_and_then frame_load) (simp add: frame_ret frame_raise split: object.split)

lemma frame_get_gas: "frame (get_gas a)"
  unfolding get_gas_def
  by (intro frame_and_then frame_load) (simp add: frame_ret frame_raise split: object.split)

lemma frame_get_list: "frame (get_list a)"
  unfolding get_list_def
  by (intro frame_and_then frame_load) (simp add: frame_ret frame_raise split: object.split)

lemma sorted_builtin_eq:
  "sorted_builtin xs s =
     (Inr (length (objects s)), s\<lparr>objects := objects s @ [ListObj (sorted_py xs)]\<rparr>)"
  by (simp add: sorted_builtin_def new_list_def list_sort_def get_list_def load_def
      and_then_def ret_def)

lemma frame_sorted_builtin: "frame (sorted_builtin xs)"
  by (simp add: frame_def sorted_builtin_eq unchanged_def)

lemmas frame_rules = frame_ret frame_raise frame_call frame_utcnow_call frame_load
  frame_get_electricity frame_get_gas frame_get_list frame_sorted_builtin

lemma frame_process_timestamp_prices_st: "frame (process_timestamp_prices_st dt hass data)"
  unfolding process_timestamp_prices_st_def Let_def
  by (intro frame_and_then frame_rules)

lemma frame_get_gas_price_st: "frame (get_gas_price_st data hours)"
  unfolding get_gas_price_st_def
  by (cases "gas_today_ref data") (auto intro!: frame_and_then frame_rules)

lemma frame_accessor: "frame (accessor f g data)"
  unfolding accessor_def by (intro frame_and_then frame_rules)

lemma frame_native_value_st:
  "f \<in> set (SENSOR_EFFECTS dt) \<Longrightarrow> frame (native_value_st hass data f)"
  unfolding SENSOR_EFFECTS_def
  by (auto intro!: frame_and_then frame_rules frame_accessor frame_get_gas_price_st
      frame_process_timestamp_prices_st split: option.split)


lemma snd_get_electricity: "snd (get_electricity a s) = s"
  by (simp add: get_electricity_def load_def and_then_def ret_def raise_def split: object.split)

lemma snd_get_gas: "snd (get_gas a s) = s"
  by (simp add: get_gas_def load_def and_then_def ret_def raise_def split: object.split)

lemma get_electricity_Inr: "fst (get_electricity a s) = Inr e \<Longrightarrow> get_electricity a s = (Inr e, s)"
  using snd_get_electricity [of a s] by (cases "get_electricity a s") simp

lemma get_gas_Inr: "fst (get_gas a s) = Inr g \<Longrightarrow> get_gas a s = (Inr g, s)"
  using snd_get_gas [of a s] by (cases "get_gas a s") simp

lemma snapshot_SomeD:
  assumes "snapshot data s = Some d"
  shows "\<exists>e. get_electricity (energy_today_ref data) s = (Inr e, s) \<and>
     energy_today d = e\<lparr>Electricity.utcnow := clock s\<rparr> \<and>
     (gas_today_ref data = None \<longrightarrow> gas_today d = None) \<and>
     (\<forall>g. gas_today_ref data = Some g \<longrightarrow>
        (\<exists>gas. get_gas g s = (Inr gas, s) \<and> gas_today d = Some (gas\<lparr>Gas.utcnow := clock s\<rparr>)))"
proof (cases "fst (get_electricity (energy_today_ref data) s)")
  case (Inl x)
  then show ?thesis using assms by (simp add: snapshot_def)
next
  case (Inr e)
  then have 1: "get_electricity (energy_today_ref data) s = (Inr e, s)"
    by (rule get_electricity_Inr)
  show ?thesis
  proof (cases "gas_today_ref data")
    case None
    then have "d = \<lparr>energy_today = e\<lparr>Electricity.utcnow := clock s\<rparr>, gas_today = None\<rparr>"
      using assms Inr by (simp add: snapshot_def)
    then show ?thesis using 1 None by simp
  next
    case (Some g)
    show ?thesis
    proof (cases "fst (get_gas g s)")
      case (Inl x)
      then show ?thesis using assms Inr Some by (simp add: snapshot_def)
    next
      case gas: (Inr gas)
      then have 2: "get_gas g s = (Inr gas, s)" by (rule get_gas_Inr)
      have "d = \<lparr>energy_today = e\<lparr>Electricity.utcnow := clock s\<rparr>,
                 gas_today = Some (gas\<lparr>Gas.utcnow := clock s\<rparr>)\<rparr>"
        using assms Inr Some gas by (simp add: snapshot_def)
      then show ?thesis using 1 2 Some by simp
    qed
  qed
qed

lemma load_unchanged:
  assumes "unchanged s s'" "a < length (objects s)"
  shows "load a s' = (Inr (objects s ! a), s')"
proof -
  have t: "take (length (objects s)) (objects s') = objects s"
    using assms(1) by (simp add: unchanged_def)
  have "length (objects s) \<le> length (objects s')"
    using t by (metis length_take min.cobounded1 min.commute)
  moreover have "objects s' ! a = objects s ! a"
    using t assms(2) by (metis nth_take)
  ultimately show ?thesis using assms(2) by (simp add: load_def)
qed

lemma get_electricity_unchanged:
  assumes "unchanged s s'" "get_electricity a s = (Inr e, s)"
  shows "get_electricity a s' = (Inr e, s')"
proof -
  have a: "a < length (objects s)"
    using assms(2) by (auto simp: get_electricity_def load_def and_then_def split: if_splits)
  then have "objects s ! a = ElectricityObj e"
    using assms(2)
    by (auto simp: get_electricity_def load_def and_then_def ret_def raise_def split: object.splits)
  then show ?thesis using load_unchanged [OF assms(1) a]
    by (simp add: get_electricity_def and_then_def ret_def)
qed

lemma get_gas_unchanged:
  assumes "unchanged s s'" "get_gas a s = (Inr g, s)"
  shows "get_gas a s' = (Inr g, s')"
proof -
  have a: "a < length (objects s)"
    using assms(2) by (auto simp: get_gas_def load_def and_then_def split: if_splits)
  then have "objects s ! a = GasObj g"
    using assms(2)
    by (auto simp: get_gas_def load_def and_then_def ret_def raise_def split: object.splits)
  then show ?thesis using load_unchanged [OF assms(1) a]
    by (simp add: get_gas_def and_then_def ret_def)
qed

lemma snapshot_unchanged:
  assumes "unchanged s s'" "snapshot data s = Some d"
  shows "snapshot data s' = Some d"
proof -
  have c: "clock s' = clock s" using assms(1) by (simp add: unchanged_def)
  from snapshot_SomeD [OF assms(2)] obtain e where all:
    "get_electricity (energy_today_ref data) s = (Inr e, s) \<and>
     energy_today d = e\<lparr>Electricity.utcnow := clock s\<rparr> \<and>
     (gas_today_ref data = None \<longrightarrow> gas_today d = None) \<and>
     (\<forall>g. gas_today_ref data = Some g \<longrightarrow>
        (\<exists>gas. get_gas g s = (Inr gas, s) \<and> gas_today d = Some (gas\<lparr>Gas.utcnow := clock s\<rparr>)))"
    by (rule exE)
  note e = all [THEN conjunct1]
  note ed = all [THEN conjunct2, THEN conjunct1]
  note gn = all [THEN conjunct2, THEN conjunct2, THEN conjunct1]
  note gs = all [THEN conjunct2, THEN conjunct2, THEN conjunct2]
  have e': "get_electricity (energy_today_ref data) s' = (Inr e, s')"
    using assms(1) e by (rule get_electricity_unchanged)
  show ?thesis
  proof (cases "gas_today_ref data")
    case None
    then show ?thesis using e' ed gn c by (simp add: snapshot_def)
  next
    case (Some g)
    then obtain gas where g: "get_gas g s = (Inr gas, s)"
      and gd: "gas_today d = Some (gas\<lparr>Gas.utcnow := clock s\<rparr>)"
      using gs by blast
    have "get_gas g s' = (Inr gas, s')" using assms(1) g by (rule get_gas_unchanged)
    then show ?thesis using Some e' ed gd c by (simp add: snapshot_def)
  qed
qed

lemma process_timestamp_prices_st_refines:
  assumes "snapshot data s = Some d"
  shows "fst (process_timestamp_prices_st dt hass data s) = Inr (process_timestamp_prices dt hass d)"
proof -
  from snapshot_SomeD [OF assms] obtain e where all:
    "get_electricity (energy_today_ref data) s = (Inr e, s) \<and>
     energy_today d = e\<lparr>Electricity.utcnow := clock s\<rparr> \<and>
     (gas_today_ref data = None \<longrightarrow> gas_today d = None) \<and>
     (\<forall>g. gas_today_ref data = Some g \<longrightarrow>
        (\<exists>gas. get_gas g s = (Inr gas, s) \<and> gas_today d = Some (gas\<lparr>Gas.utcnow := clock s\<rparr>)))"
    by (rule exE)
  note e = all [THEN conjunct1]
  note ed = all [THEN conjunct2, THEN conjunct1]
  note gn = all [THEN conjunct2, THEN conjunct2, THEN conjunct1]
  note gs = all [THEN conjunct2, THEN conjunct2, THEN conjunct2]
  show ?thesis
    using e ed
    by (simp add: process_timestamp_prices_st_def process_timestamp_prices_eq local_prices_def
        and_then_def sorted_builtin_eq get_list_def load_def ret_def Let_def)
qed

lemma get_gas_price_st_refines:
  assumes "snapshot data s = Some d"
  shows "fst (get_gas_price_st data hours s) = get_gas_price d hours"
proof -
  from snapshot_SomeD [OF assms] obtain e where all:
    "get_electricity (energy_today_ref data) s = (Inr e, s) \<and>
     energy_today d = e\<lparr>Electricity.utcnow := clock s\<rparr> \<and>
     (gas_today_ref data = None \<longrightarrow> gas_today d = None) \<and>
     (\<forall>g. gas_today_ref data = Some g \<longrightarrow>
        (\<exists>gas. get_gas g s = (Inr gas, s) \<and> gas_today d = Some (gas\<lparr>Gas.utcnow := clock s\<rparr>)))"
    by (rule exE)
  note e = all [THEN conjunct1]
  note ed = all [THEN conjunct2, THEN conjunct1]
  note gn = all [THEN conjunct2, THEN conjunct2, THEN conjunct1]
  note gs = all [THEN conjunct2, THEN conjunct2, THEN conjunct2]
  show ?thesis
  proof (cases "gas_today_ref data")
    case None
    then show ?thesis using gn by (simp add: get_gas_price_st_def get_gas_price_def ret_def)
  next
    case (Some g)
    then obtain gas where "get_gas g s = (Inr gas, s)"
      and "gas_today d = Some (gas\<lparr>Gas.utcnow := clock s\<rparr>)"
      using gs by blast
    then show ?thesis using Some
      by (simp add: get_gas_price_st_def get_gas_price_def and_then_def utcnow_call_def call_def)
  qed
qed

lemma and_then_fst_Inr:
  "fst (m s) = Inr x \<Longrightarrow> fst (and_then m (\<lambda>r. ret (g r)) s) = Inr (g x)"
  by (cases "m s") (simp add: and_then_def ret_def)

lemma and_then_fst_Inl:
  "fst (m s) = Inl x \<Longrightarrow> fst (and_then m (\<lambda>r. ret (g r)) s) = Inl x"
  by (cases "m s") (simp add: and_then_def ret_def)

lemma and_then_ret_returning:
  "fst (and_then m (\<lambda>r. ret (g r)) s) = returning g (fst (m s))"
  by (cases "m s"; cases "fst (m s)") (auto simp: and_then_def ret_def returning_def)

lemma native_value_st_refines:
  assumes "snapshot data s = Some d"
  shows "list_all2 (\<lambda>f description. fst f = key description \<and>
            fst (native_value_st hass data f s) = native_value hass d description)
          (SENSOR_EFFECTS dt) (SENSORS dt)"
proof -
  from snapshot_SomeD [OF assms] obtain e where all:
    "get_electricity (energy_today_ref data) s = (Inr e, s) \<and>
     energy_today d = e\<lparr>Electricity.utcnow := clock s\<rparr> \<and>
     (gas_today_ref data = None \<longrightarrow> gas_today d = None) \<and>
     (\<forall>g. gas_today_ref data = Some g \<longrightarrow>
        (\<exists>gas. get_gas g s = (Inr gas, s) \<and> gas_today d = Some (gas\<lparr>Gas.utcnow := clock s\<rparr>)))"
    by (rule exE)
  note e = all [THEN conjunct1]
  note ed = all [THEN conjunct2, THEN conjunct1]
  note gn = all [THEN conjunct2, THEN conjunct2, THEN conjunct1]
  note gs = all [THEN conjunct2, THEN conjunct2, THEN conjunct2]
  have acc: "fst (accessor f g data s) = returning g (f (energy_today d))"
    if "\<And>c. f (e\<lparr>Electricity.utcnow := c\<rparr>) = f e" for f :: "Electricity \<Rightarrow> exn + 'a" and g
    using e ed that
    by (cases "f e") (simp_all add: accessor_def and_then_def call_def ret_def returning_def)
  have p: "fst (process_timestamp_prices_st dt hass data s) = Inr (process_timestamp_prices dt hass d)"
    using assms by (rule process_timestamp_prices_st_refines)
  have q: "fst (get_gas_price_st data 1 s) = get_gas_price d 1"
    using assms by (rule get_gas_price_st_refines)
  have n: "fst (and_then (get_electricity (energy_today_ref data)) (\<lambda>energy_today.
                    and_then utcnow_call (\<lambda>now.
                    and_then (call (Electricity.price_at_time energy_today (now + timedelta_hours 1)))
                      (\<lambda>r. ret (optional_float r)))) s) =
      returning optional_float (Electricity.price_at_time (energy_today d)
         (Electricity.utcnow (energy_today d) + timedelta_hours 1))"
    using e ed
    by (cases "Electricity.price_at_time e (clock s + timedelta_hours 1)")
       (simp_all add: and_then_def utcnow_call_def call_def ret_def returning_def)
  have c: "fst ((case gas_today_ref data of
                Some g \<Rightarrow> and_then (get_gas g) (\<lambda>gas.
                          and_then (call (Gas.current_price gas)) (\<lambda>r. ret (optional_float r)))
              | None \<Rightarrow> ret NoneVal) s) =
      (case gas_today d of Some gas \<Rightarrow> returning optional_float (Gas.current_price gas)
       | None \<Rightarrow> Inr NoneVal)"
  proof (cases "gas_today_ref data")
    case None
    then show ?thesis using gn by (simp add: ret_def)
  next
    case (Some g)
    then obtain gas where "get_gas g s = (Inr gas, s)"
      and "gas_today d = Some (gas\<lparr>Gas.utcnow := clock s\<rparr>)"
      using gs by blast
    then show ?thesis using Some
      by (cases "Gas.current_price gas")
         (simp_all add: and_then_def call_def ret_def returning_def)
  qed
  show ?thesis
    unfolding SENSOR_EFFECTS_def SENSORS_def
    by (simp add: native_value_def acc p q n c and_then_ret_returning)
qed


lemma process_timestamp_prices_st_eq:
  assumes "get_electricity (energy_today_ref data) s = (Inr e, s)"
  shows "process_timestamp_prices_st dt hass data s =
     (Inr (str_join '','' (map format_entry (local_prices dt (Electricity.prices e)))),
      s\<lparr>objects := objects s @ [ListObj (local_prices dt (Electricity.prices e))]\<rparr>)"
  using assms
  by (simp add: process_timestamp_prices_st_def local_prices_def
      and_then_def sorted_builtin_eq get_list_def load_def ret_def Let_def)

lemma sorted_rev_two_day_series: "sorted_py (rev two_day_series) = two_day_series"
  by (simp add: sorted_py_def two_day_series_def midnight_2024_01_01_def day_us_def hour_us_def)

lemma local_prices_rev_two_day_series:
  "local_prices (fixed_offset 0) (rev two_day_series) = two_day_series"
proof -
  have "map (\<lambda>(k, v). (replace_tzinfo_None (as_local (DEFAULT_TIME_ZONE (fixed_offset 0))
            (replace_tzinfo_UTC k)), v)) (rev two_day_series) = rev two_day_series"
    by (simp add: local_time_simp fixed_offset_def two_day_series_def)
  then show ?thesis by (simp only: local_prices_def sorted_rev_two_day_series)
qed

text \<open>
  An in-place sort of a list that is already in the store is a change of the store: the
  frame condition tells \<open>list.sort()\<close> on an old object from \<open>sorted\<close>, which sorts a new one.
\<close>

lemma list_sort_changes_store:
  "\<not> unchanged list_store (snd (list_sort 0 list_store))"
proof -
  have "snd (list_sort 0 list_store) = \<lparr>objects = [ListObj two_day_series], clock = 0\<rparr>"
    by (simp add: list_sort_def get_list_def load_def and_then_def ret_def list_store_def
        sorted_rev_two_day_series)
  moreover have "rev two_day_series \<noteq> two_day_series"
    by (simp add: two_day_series_def midnight_2024_01_01_def day_us_def hour_us_def)
  ultimately show ?thesis by (simp add: unchanged_def list_store_def)
qed

lemma snapshot_sample_store:
  "snapshot sample_ref sample_store = Some (sample_data (rev two_day_series) (Some sample_gas))"
  by (simp add: snapshot_def sample_ref_def sample_store_def get_electricity_def get_gas_def
      load_def and_then_def ret_def sample_data_def sample_electricity_def sample_gas_def)

lemma snapshot_other_store:
  "snapshot other_ref other_store = Some (sample_data (rev two_day_series) (Some sample_gas))"
  by (simp add: snapshot_def other_ref_def other_store_def get_electricity_def get_gas_def
      load_def and_then_def ret_def sample_data_def sample_electricity_def sample_gas_def)

text \<open>
  Claim C7. \<open>process_timestamp_prices\<close>, \<open>get_gas_price\<close> and the value function of every
  sensor leave each object that was in the store before the call as it was, and the
  clock; so the snapshot seen after the call is the snapshot seen before it, with the
  same electricity and gas series. The values the calls return are those of the
  functions of the first part.
\<close>

theorem views_leave_snapshot_unchanged:
  "unchanged s (snd (process_timestamp_prices_st dt hass data s)) \<and>
   unchanged s (snd (get_gas_price_st data hours s)) \<and>
   (\<forall>f \<in> set (SENSOR_EFFECTS dt). unchanged s (snd (native_value_st hass data f s))) \<and>
   (snapshot data s = Some d \<longrightarrow>
      snapshot data (snd (process_timestamp_prices_st dt hass data s)) = Some d \<and>
      snapshot data (snd (get_gas_price_st data hours s)) = Some d \<and>
      (\<forall>f \<in> set (SENSOR_EFFECTS dt). snapshot data (snd (native_value_st hass data f s)) = Some d) \<and>
      fst (process_timestamp_prices_st dt hass data s) = Inr (process_timestamp_prices dt hass d) \<and>
      fst (get_gas_price_st data hours s) = get_gas_price d hours \<and>
      list_all2 (\<lambda>f description. fst f = key description \<and>
                  fst (native_value_st hass data f s) = native_value hass d description)
        (SENSOR_EFFECTS dt) (SENSORS dt))"
proof -
  have p: "unchanged s (snd (process_timestamp_prices_st dt hass data s))"
    using frame_process_timestamp_prices_st [of dt hass data] by (simp add: frame_def)
  have g: "unchanged s (snd (get_gas_price_st data hours s))"
    using frame_get_gas_price_st [of data hours] by (simp add: frame_def)
  have n: "\<forall>f \<in> set (SENSOR_EFFECTS dt). unchanged s (snd (native_value_st hass data f s))"
    using frame_native_value_st [of _ dt hass data] by (simp add: frame_def)
  have r: "snapshot data s = Some d \<longrightarrow>
      snapshot data (snd (process_timestamp_prices_st dt hass data s)) = Some d \<and>
      snapshot data (snd (get_gas_price_st data hours s)) = Some d \<and>
      (\<forall>f \<in> set (SENSOR_EFFECTS dt). snapshot data (snd (native_value_st hass data f s)) = Some d) \<and>
      fst (process_timestamp_prices_st dt hass data s) = Inr (process_timestamp_prices dt hass d) \<and>
      fst (get_gas_price_st data hours s) = get_gas_price d hours \<and>
      list_all2 (\<lambda>f description. fst f = key description \<and>
                  fst (native_value_st hass data f s) = native_value hass d description)
        (SENSOR_EFFECTS dt) (SENSORS dt)"
  proof
    assume d: "snapshot data s = Some d"
    have 1: "snapshot data (snd (process_timestamp_prices_st dt hass data s)) = Some d"
      using p d by (rule snapshot_unchanged)
    have 2: "snapshot data (snd (get_gas_price_st data hours s)) = Some d"
      using g d by (rule snapshot_unchanged)
    have 3: "\<forall>f \<in> set (SENSOR_EFFECTS dt). snapshot data (snd (native_value_st hass data f s)) = Some d"
    proof
      fix f assume "f \<in> set (SENSOR_EFFECTS dt)"
      then have "unchanged s (snd (native_value_st hass data f s))" using n by (rule bspec [rotated])
      then show "snapshot data (snd (native_value_st hass data f s)) = Some d"
        using d by (rule snapshot_unchanged)
    qed
    show "snapshot data (snd (process_timestamp_prices_st dt hass data s)) = Some d \<and>
      snapshot data (snd (get_gas_price_st data hours s)) = Some d \<and>
      (\<forall>f \<in> set (SENSOR_EFFECTS dt). snapshot data (snd (native_value_st hass data f s)) = Some d) \<and>
      fst (process_timestamp_prices_st dt hass data s) = Inr (process_timestamp_prices dt hass d) \<and>
      fst (get_gas_price_st data hours s) = get_gas_price d hours \<and>
      list_all2 (\<lambda>f description. fst f = key description \<and>
                  fst (native_value_st hass data f s) = native_value hass d description)
        (SENSOR_EFFECTS dt) (SENSORS dt)"
      using 1 2 3 process_timestamp_prices_st_refines [OF d, of dt hass]
        get_gas_price_st_refines [OF d, of hours] native_value_st_refines [OF d, of hass dt]
      by (intro conjI)
  qed
  show ?thesis using p g n r by (intro conjI)
qed

text \<open>
  The theorem at the sample store: the rendering puts one new list, the sorted one, at
  the end of the store, and the dictionary keeps its order.
\<close>

theorem views_leave_snapshot_unchanged_witness:
  "snapshot sample_ref sample_store = Some (sample_data (rev two_day_series) (Some sample_gas)) \<and>
   process_timestamp_prices_st (fixed_offset 0) sample_hass sample_ref sample_store =
     (Inr ''05:0.24,07:0.24'',
      sample_store\<lparr>objects := objects sample_store @ [ListObj two_day_series]\<rparr>) \<and>
   unchanged sample_store
     (snd (process_timestamp_prices_st (fixed_offset 0) sample_hass sample_ref sample_store)) \<and>
   snapshot sample_ref
     (snd (process_timestamp_prices_st (fixed_offset 0) sample_hass sample_ref sample_store)) =
     Some (sample_data (rev two_day_series) (Some sample_gas)) \<and>
   unchanged sample_store
     (snd (native_value_st sample_hass sample_ref (SENSOR_EFFECTS (fixed_offset 0) ! 1) sample_store))"
proof -
  note inst = views_leave_snapshot_unchanged [of sample_store "fixed_offset 0" sample_hass
      sample_ref 1 "sample_data (rev two_day_series) (Some sample_gas)"]
  have e: "get_electricity (energy_today_ref sample_ref) sample_store =
      (Inr (sample_electricity (rev two_day_series)), sample_store)"
    by (simp add: get_electricity_def load_def and_then_def ret_def sample_ref_def sample_store_def)
  have t: "str_join '','' (map format_entry two_day_series) = ''05:0.24,07:0.24''"
    by (simp add: eval_defs)
  have v: "process_timestamp_prices_st (fixed_offset 0) sample_hass sample_ref sample_store =
     (Inr ''05:0.24,07:0.24'',
      sample_store\<lparr>objects := objects sample_store @ [ListObj two_day_series]\<rparr>)"
    unfolding process_timestamp_prices_st_eq [OF e]
    by (simp add: sample_electricity_def local_prices_rev_two_day_series t)
  have m: "SENSOR_EFFECTS (fixed_offset 0) ! 1 \<in> set (SENSOR_EFFECTS (fixed_offset 0))"
    by (simp add: SENSOR_EFFECTS_def)
  have u: "unchanged sample_store
     (snd (process_timestamp_prices_st (fixed_offset 0) sample_hass sample_ref sample_store))"
    using inst by (rule conjunct1)
  have w: "unchanged sample_store
     (snd (native_value_st sample_hass sample_ref (SENSOR_EFFECTS (fixed_offset 0) ! 1) sample_store))"
    using inst m by blast
  have k: "snapshot sample_ref
     (snd (process_timestamp_prices_st (fixed_offset 0) sample_hass sample_ref sample_store)) =
     Some (sample_data (rev two_day_series) (Some sample_gas))"
    using inst snapshot_sample_store by blast
  show ?thesis using snapshot_sample_store v u k w by (intro conjI)
qed


lemma native_value_same_zone:
  assumes "DEFAULT_TIME_ZONE dt' = DEFAULT_TIME_ZONE dt"
  shows "list_all2 (\<lambda>description description'.
            native_value hass' d description' = native_value hass d description)
          (SENSORS dt) (SENSORS dt')"
  using assms
  by (simp add: SENSORS_def native_value_def process_timestamp_prices_eq local_prices_def)

lemma length_SENSOR_EFFECTS: "length (SENSOR_EFFECTS dt) = 12"
  by (simp add: SENSOR_EFFECTS_def)

lemma length_SENSORS: "length (SENSORS dt) = 12"
  by (simp add: SENSORS_def)

lemma views_depend_on_snapshot:
  assumes "snapshot data s = Some d" "snapshot data' s' = Some d"
    and "DEFAULT_TIME_ZONE dt' = DEFAULT_TIME_ZONE dt"
  shows "fst (process_timestamp_prices_st dt' hass' data' s') =
           fst (process_timestamp_prices_st dt hass data s)"
    and "fst (get_gas_price_st data' hours s') = fst (get_gas_price_st data hours s)"
    and "i < length (SENSOR_EFFECTS dt) \<Longrightarrow>
           fst (native_value_st hass' data' (SENSOR_EFFECTS dt' ! i) s') =
           fst (native_value_st hass data (SENSOR_EFFECTS dt ! i) s)"
proof -
  have "process_timestamp_prices dt' hass' d = process_timestamp_prices dt hass d"
    using assms(3) by (simp add: process_timestamp_prices_eq local_prices_def)
  then show "fst (process_timestamp_prices_st dt' hass' data' s') =
           fst (process_timestamp_prices_st dt hass data s)"
    by (simp add: process_timestamp_prices_st_refines [OF assms(1)]
        process_timestamp_prices_st_refines [OF assms(2)])
  show "fst (get_gas_price_st data' hours s') = fst (get_gas_price_st data hours s)"
    by (simp add: get_gas_price_st_refines [OF assms(1)] get_gas_price_st_refines [OF assms(2)])
  show "fst (native_value_st hass' data' (SENSOR_EFFECTS dt' ! i) s') =
           fst (native_value_st hass data (SENSOR_EFFECTS dt ! i) s)"
    if "i < length (SENSOR_EFFECTS dt)"
  proof -
    have i: "i < 12" using that by (simp add: length_SENSOR_EFFECTS)
    have a: "fst (native_value_st hass data (SENSOR_EFFECTS dt ! i) s) =
        native_value hass d (SENSORS dt ! i)"
      using list_all2_nthD [OF native_value_st_refines [OF assms(1), of hass dt], of i] i
      by (simp add: length_SENSOR_EFFECTS)
    have b: "fst (native_value_st hass' data' (SENSOR_EFFECTS dt' ! i) s') =
        native_value hass' d (SENSORS dt' ! i)"
      using list_all2_nthD [OF native_value_st_refines [OF assms(2), of hass' dt'], of i] i
      by (simp add: length_SENSOR_EFFECTS)
    have c: "native_value hass' d (SENSORS dt' ! i) = native_value hass d (SENSORS dt ! i)"
      using list_all2_nthD [OF native_value_same_zone [OF assms(3), of hass' d hass], of i] i
      by (simp add: length_SENSORS)
    show ?thesis by (simp only: a b c)
  qed
qed

text \<open>
  Claim C8. Two evaluations of a view that see the same snapshot (the same two objects
  and the same instant of the clock) in the same local zone return the same result,
  whatever else the stores hold and whatever \<open>hass\<close> and the zone lookup are; in
  particular a second evaluation on the store the first one left returns what the first
  returned.
\<close>

theorem views_deterministic:
  "snapshot data s = Some d \<Longrightarrow> snapshot data' s' = Some d \<Longrightarrow>
   DEFAULT_TIME_ZONE dt' = DEFAULT_TIME_ZONE dt \<Longrightarrow>
   fst (process_timestamp_prices_st dt' hass' data' s') =
     fst (process_timestamp_prices_st dt hass data s) \<and>
   fst (get_gas_price_st data' hours s') = fst (get_gas_price_st data hours s) \<and>
   (\<forall>i < length (SENSOR_EFFECTS dt).
      fst (native_value_st hass' data' (SENSOR_EFFECTS dt' ! i) s') =
      fst (native_value_st hass data (SENSOR_EFFECTS dt ! i) s)) \<and>
   fst (process_timestamp_prices_st dt' hass' data
          (snd (process_timestamp_prices_st dt hass data s))) =
     fst (process_timestamp_prices_st dt hass data s) \<and>
   fst (get_gas_price_st data hours (snd (get_gas_price_st data hours s))) =
     fst (get_gas_price_st data hours s) \<and>
   (\<forall>i < length (SENSOR_EFFECTS dt).
      fst (native_value_st hass' data (SENSOR_EFFECTS dt' ! i)
             (snd (native_value_st hass data (SENSOR_EFFECTS dt ! i) s))) =
      fst (native_value_st hass data (SENSOR_EFFECTS dt ! i) s))"
proof -
  assume d: "snapshot data s = Some d" and d': "snapshot data' s' = Some d"
    and z: "DEFAULT_TIME_ZONE dt' = DEFAULT_TIME_ZONE dt"
  note two = views_depend_on_snapshot [OF d d' z]
  have p: "snapshot data (snd (process_timestamp_prices_st dt hass data s)) = Some d"
    using frame_process_timestamp_prices_st [of dt hass data] d
    by (auto simp: frame_def intro: snapshot_unchanged)
  have g: "snapshot data (snd (get_gas_price_st data hours s)) = Some d"
    using frame_get_gas_price_st [of data hours] d
    by (auto simp: frame_def intro: snapshot_unchanged)
  have n: "snapshot data (snd (native_value_st hass data (SENSOR_EFFECTS dt ! i) s)) = Some d"
    if "i < length (SENSOR_EFFECTS dt)" for i
  proof -
    have "SENSOR_EFFECTS dt ! i \<in> set (SENSOR_EFFECTS dt)" using that by (rule nth_mem)
    then have "frame (native_value_st hass data (SENSOR_EFFECTS dt ! i))"
      by (rule frame_native_value_st)
    then show ?thesis using d by (auto simp: frame_def intro: snapshot_unchanged)
  qed
  have 1: "\<forall>i < length (SENSOR_EFFECTS dt).
      fst (native_value_st hass' data' (SENSOR_EFFECTS dt' ! i) s') =
      fst (native_value_st hass data (SENSOR_EFFECTS dt ! i) s)"
    using two(3) by blast
  have 2: "\<forall>i < length (SENSOR_EFFECTS dt).
      fst (native_value_st hass' data (SENSOR_EFFECTS dt' ! i)
             (snd (native_value_st hass data (SENSOR_EFFECTS dt ! i) s))) =
      fst (native_value_st hass data (SENSOR_EFFECTS dt ! i) s)"
  proof (intro allI impI)
    fix i assume i: "i < length (SENSOR_EFFECTS dt)"
    show "fst (native_value_st hass' data (SENSOR_EFFECTS dt' ! i)
             (snd (native_value_st hass data (SENSOR_EFFECTS dt ! i) s))) =
      fst (native_value_st hass data (SENSOR_EFFECTS dt ! i) s)"
      using views_depend_on_snapshot(3) [OF d n [OF i] z i] .
  qed
  show ?thesis
    using two(1) two(2) 1 views_depend_on_snapshot(1) [OF d p z]
      views_depend_on_snapshot(2) [OF d g z] 2
    by (intro conjI)
qed

text \<open>
  The theorem for two stores that hold the snapshot at different addresses, and for the
  repeated call.
\<close>

theorem views_deterministic_witness:
  "snapshot sample_ref sample_store = Some (sample_data (rev two_day_series) (Some sample_gas)) \<and>
   snapshot other_ref other_store = Some (sample_data (rev two_day_series) (Some sample_gas)) \<and>
   fst (process_timestamp_prices_st (fixed_offset 0) sample_hass sample_ref sample_store) =
     Inr ''05:0.24,07:0.24'' \<and>
   fst (process_timestamp_prices_st ((fixed_offset 0)\<lparr>get_time_zone := (\<lambda>_. None)\<rparr>)
          \<lparr>config = \<lparr>time_zone = ''UTC''\<rparr>\<rparr> other_ref other_store) = Inr ''05:0.24,07:0.24'' \<and>
   fst (process_timestamp_prices_st ((fixed_offset 0)\<lparr>get_time_zone := (\<lambda>_. None)\<rparr>)
          \<lparr>config = \<lparr>time_zone = ''UTC''\<rparr>\<rparr> sample_ref
          (snd (process_timestamp_prices_st (fixed_offset 0) sample_hass sample_ref sample_store))) =
     Inr ''05:0.24,07:0.24''"
proof -
  have z: "DEFAULT_TIME_ZONE ((fixed_offset 0)\<lparr>get_time_zone := (\<lambda>_. None)\<rparr>) =
           DEFAULT_TIME_ZONE (fixed_offset 0)"
    by simp
  note inst = views_deterministic [OF snapshot_sample_store snapshot_other_store z,
      of "\<lparr>config = \<lparr>time_zone = ''UTC''\<rparr>\<rparr>" sample_hass 1]
  have e: "get_electricity (energy_today_ref sample_ref) sample_store =
      (Inr (sample_electricity (rev two_day_series)), sample_store)"
    by (simp add: get_electricity_def load_def and_then_def ret_def sample_ref_def sample_store_def)
  have t: "str_join '','' (map format_entry two_day_series) = ''05:0.24,07:0.24''"
    by (simp add: eval_defs)
  have v: "fst (process_timestamp_prices_st (fixed_offset 0) sample_hass sample_ref sample_store) =
     Inr ''05:0.24,07:0.24''"
    unfolding process_timestamp_prices_st_eq [OF e]
    by (simp add: sample_electricity_def local_prices_rev_two_day_series t)
  have a: "fst (process_timestamp_prices_st ((fixed_offset 0)\<lparr>get_time_zone := (\<lambda>_. None)\<rparr>)
          \<lparr>config = \<lparr>time_zone = ''UTC''\<rparr>\<rparr> other_ref other_store) =
      fst (process_timestamp_prices_st (fixed_offset 0) sample_hass sample_ref sample_store)"
    using inst by (rule conjunct1)
  have b: "fst (process_timestamp_prices_st ((fixed_offset 0)\<lparr>get_time_zone := (\<lambda>_. None)\<rparr>)
          \<lparr>config = \<lparr>time_zone = ''UTC''\<rparr>\<rparr> sample_ref
          (snd (process_timestamp_prices_st (fixed_offset 0) sample_hass sample_ref sample_store))) =
      fst (process_timestamp_prices_st (fixed_offset 0) sample_hass sample_ref sample_store)"
    using inst by blast
  show ?thesis
    using snapshot_sample_store snapshot_other_store v a b by (simp only:) 
qed

end
